theory Spec2Isabelle
  imports Main
begin

section \<open>JavaScript values\<close>

text \<open>
  The lockfile reader works on the untyped result of a YAML parse. A number is kept as its
  decimal rendering (what \<^verbatim>\<open>Number.prototype.toString\<close> returns), the only observations
  the reader makes of a number being that rendering and its truthiness. An object is the
  map of its own data properties; the property names read by the reader
  (\<^verbatim>\<open>specifiers\<close>, \<^verbatim>\<open>importers\<close>, \<^verbatim>\<open>packages\<close>, ...) are never inherited ones.
\<close>

type_synonym js_number = string

datatype jsval =
    Undefined
  | Null
  | Bool bool
  | Num js_number
  | Str string
  | Arr "jsval list"
  | Obj "string \<rightharpoonup> jsval"

type_synonym js_object = "string \<rightharpoonup> jsval"

text \<open>\<^verbatim>\<open>obj[k]\<close> on an object: the value of the own property, \<^verbatim>\<open>undefined\<close> without one.\<close>

definition get_prop :: "js_object \<Rightarrow> string \<Rightarrow> jsval" where
  "get_prop obj k = (case obj k of None \<Rightarrow> Undefined | Some v \<Rightarrow> v)"

text \<open>\<^verbatim>\<open>obj?.[k]\<close> where \<^verbatim>\<open>obj\<close> may be \<^verbatim>\<open>null\<close> or \<^verbatim>\<open>undefined\<close> (\<open>None\<close>).\<close>

definition optional_get :: "js_object option \<Rightarrow> string \<Rightarrow> jsval" where
  "optional_get obj k = (case obj of None \<Rightarrow> Undefined | Some ob \<Rightarrow> get_prop ob k)"

text \<open>\<^verbatim>\<open>v == null\<close>, also the test of \<^verbatim>\<open>v ?? d\<close>.\<close>

fun nullish :: "jsval \<Rightarrow> bool" where
  "nullish Undefined = True"
| "nullish Null = True"
| "nullish _ = False"

fun truthy :: "jsval \<Rightarrow> bool" where
  "truthy Undefined = False"
| "truthy Null = False"
| "truthy (Bool b) = b"
| "truthy (Num n) = (n \<noteq> ''0'' \<and> n \<noteq> ''NaN'')"
| "truthy (Str s) = (s \<noteq> [])"
| "truthy (Arr xs) = True"
| "truthy (Obj m) = True"

datatype js_error =
    PnpmError string string
  | LockfileBreakingChangeError string
  | Thrown "string option" string
  | TypeError string

text \<open>
  \<open>PnpmError code message\<close> and \<open>LockfileBreakingChangeError filename\<close> are the two
  errors the sources construct; \<open>Thrown code message\<close> is an exception raised by a
  collaborator (file system, parser, ...), with its \<^verbatim>\<open>code\<close> property if it has one;
  \<open>TypeError\<close> is raised by the runtime (calling what is not a function).
  \<open>error_code\<close> reads \<^verbatim>\<open>err.code\<close>; a \<^verbatim>\<open>PnpmError\<close> carries its code prefixed.
\<close>

fun error_code :: "js_error \<Rightarrow> string option" where
  "error_code (PnpmError c m) = Some (''ERR_PNPM_'' @ c)"
| "error_code (LockfileBreakingChangeError f) = Some ''ERR_PNPM_LOCKFILE_BREAKING_CHANGE''"
| "error_code (Thrown c m) = c"
| "error_code (TypeError m) = None"

fun join_strings :: "string list \<Rightarrow> string" where
  "join_strings [] = []"
| "join_strings [s] = s"
| "join_strings (s # t # ss) = s @ '','' @ join_strings (t # ss)"

text \<open>
  \<^verbatim>\<open>v.toString()\<close>. An array joins its elements with commas, \<^verbatim>\<open>null\<close> and
  \<^verbatim>\<open>undefined\<close> elements rendering empty; a plain object renders \<^verbatim>\<open>[object Object]\<close>
  unless an own property shadows \<^verbatim>\<open>toString\<close> (parsed data holds no function, so the
  call fails).
\<close>

fun toString :: "jsval \<Rightarrow> js_error + string" where
  "toString Undefined = Inl (TypeError ''Cannot read properties of undefined'')"
| "toString Null = Inl (TypeError ''Cannot read properties of null'')"
| "toString (Bool b) = Inr (if b then ''true'' else ''false'')"
| "toString (Num n) = Inr n"
| "toString (Str s) = Inr s"
| "toString (Arr xs) =
     (case those (map (\<lambda>x. case x of Undefined \<Rightarrow> Some [] | Null \<Rightarrow> Some []
                          | _ \<Rightarrow> (case toString x of Inl e \<Rightarrow> None | Inr s \<Rightarrow> Some s)) xs) of
        None \<Rightarrow> Inl (TypeError ''Cannot convert object to primitive value'')
      | Some ss \<Rightarrow> Inr (join_strings ss))"
| "toString (Obj m) =
     (case m ''toString'' of
        None \<Rightarrow> Inr ''[object Object]''
      | Some f \<Rightarrow> Inl (TypeError ''toString is not a function''))"

fun show_nat :: "nat \<Rightarrow> string" where
  "show_nat n =
     (if n < 10 then [''0123456789'' ! n]
      else show_nat (n div 10) @ [''0123456789'' ! (n mod 10)])"

text \<open>
  The own enumerable properties copied by an object spread \<^verbatim>\<open>{...v}\<close>: those of an
  object, the indexed elements of an array or string, none for the other values.
\<close>

fun spread :: "jsval \<Rightarrow> js_object" where
  "spread (Obj m) = m"
| "spread (Arr xs) = map_of (zip (map show_nat [0..<length xs]) xs)"
| "spread (Str s) = map_of (zip (map show_nat [0..<length s]) (map (\<lambda>c. Str [c]) s))"
| "spread v = Map.empty"

section \<open>Effects: log events and failures\<close>

text \<open>\<^verbatim>\<open>logger.info({message, prefix})\<close> and \<^verbatim>\<open>logger.warn({message, prefix})\<close>.\<close>

datatype log_event = Info string string | Warn string string

text \<open>
  An asynchronous computation yields the events it logged, in order, and either the
  exception it threw (\<open>Inl\<close>) or its value.
\<close>

type_synonym 'a io = "log_event list \<times> (js_error + 'a)"

definition pure :: "'a \<Rightarrow> 'a io" where
  "pure x = ([], Inr x)"

definition throw :: "js_error \<Rightarrow> 'a io" where
  "throw e = ([], Inl e)"

definition lift :: "js_error + 'a \<Rightarrow> 'a io" where
  "lift r = ([], r)"

definition and_then :: "'a io \<Rightarrow> ('a \<Rightarrow> 'b io) \<Rightarrow> 'b io" where
  "and_then m f =
     (case m of
        (l1, Inl e) \<Rightarrow> (l1, Inl e)
      | (l1, Inr x) \<Rightarrow> (case f x of (l2, r) \<Rightarrow> (l1 @ l2, r)))"

fun first_rejection :: "(js_error + 'a) list \<Rightarrow> js_error + 'a list" where
  "first_rejection [] = Inr []"
| "first_rejection (Inl e # rs) = Inl e"
| "first_rejection (Inr x # rs) =
     (case first_rejection rs of Inl e \<Rightarrow> Inl e | Inr xs \<Rightarrow> Inr (x # xs))"

text \<open>
  \<^verbatim>\<open>Promise.all\<close>: every computation runs (all their events are logged); the values come
  in the order of the list; if some fail, one failure is reported. The computations are
  taken in list order here, so the failure reported is that of the first failing element.
\<close>

definition promise_all :: "'a io list \<Rightarrow> 'a list io" where
  "promise_all ms = (concat (map fst ms), first_rejection (map snd ms))"

section \<open>Options and results of the reader\<close>

record lockfile_opts =
  wantedVersion :: "js_number option"
  ignoreIncompatible :: bool

record read_opts = lockfile_opts +
  autofixMergeConflicts :: "bool option"

record wanted_opts = lockfile_opts +
  useGitBranchLockfile :: "bool option"
  mergeGitBranchLockfiles :: "bool option"

text \<open>A lockfile is an object; \<open>None\<close> is \<^verbatim>\<open>null\<close> (or an empty parse result).\<close>

record read_result =
  lockfile :: "js_object option"
  hadConflicts :: bool

section \<open>Foreign lock files\<close>

text \<open>
  An object read from JSON or from a yarn lock is the list of its entries, in the order of
  \<^verbatim>\<open>Object.keys\<close>. \<open>None\<close> for \<^verbatim>\<open>dependencies\<close> is a missing or \<^verbatim>\<open>null\<close> property.
\<close>

datatype LockedPackage =
  LockedPackage (version: string) (dependencies: "(string \<times> LockedPackage) list option")

record YarnLockPackage =
  yarn_version :: string
  resolved :: string
  integrity :: string
  yarn_dependencies :: "(string \<times> string) list option"

type_synonym YarnPackgeLock = "(string \<times> YarnLockPackage) list"

section \<open>Collaborators\<close>

text \<open>
  What the sources import and do not define. For \<^verbatim>\<open>read.ts\<close>: the constant
  \<^verbatim>\<open>WANTED_LOCKFILE\<close>, \<^verbatim>\<open>path.join\<close>, \<^verbatim>\<open>fs.readFile\<close> (with encoding utf8),
  \<^verbatim>\<open>stripBom\<close>, \<^verbatim>\<open>yaml.load\<close> (\<open>Inl\<close> the message of the exception it threw),
  \<^verbatim>\<open>isDiff\<close> and \<^verbatim>\<open>autofixMergeConflicts\<close> of \<^verbatim>\<open>gitMergeFile\<close> (here \<open>autofix\<close>),
  \<^verbatim>\<open>comverToSemver\<close>, \<^verbatim>\<open>semver.major\<close>, \<^verbatim>\<open>semver.gt\<close>, \<^verbatim>\<open>getWantedLockfileName\<close>
  and \<^verbatim>\<open>getGitBranchLockfileNames\<close>. For the import command: \<^verbatim>\<open>exists\<close> of
  \<^verbatim>\<open>path-exists\<close> (here \<open>path_exists\<close>), \<^verbatim>\<open>gfs.readFile\<close>, \<^verbatim>\<open>parse\<close> of
  \<^verbatim>\<open>@yarnpkg/lockfile\<close> (its result is the pair of \<^verbatim>\<open>type\<close> and \<^verbatim>\<open>object\<close>) and
  \<^verbatim>\<open>loadJsonFile\<close>. A collaborator that can throw returns a sum, \<open>Inl\<close> what it threw.
  The results of \<^verbatim>\<open>yaml.load\<close> and \<^verbatim>\<open>autofixMergeConflicts\<close> are cast to the type of a
  lockfile by the sources: an object, or nothing for a document that is empty or null.
\<close>

record env =
  WANTED_LOCKFILE :: string
  path_join :: "string \<Rightarrow> string \<Rightarrow> string"
  fs_readFile :: "string \<Rightarrow> js_error + string"
  stripBom :: "string \<Rightarrow> string"
  yaml_load :: "string \<Rightarrow> string + js_object option"
  isDiff :: "string \<Rightarrow> bool"
  autofix :: "string \<Rightarrow> js_error + js_object option"
  comverToSemver :: "string \<Rightarrow> string"
  semver_major :: "string \<Rightarrow> js_error + nat"
  semver_gt :: "string \<Rightarrow> string \<Rightarrow> js_error + bool"
  getWantedLockfileName :: "wanted_opts \<Rightarrow> js_error + string"
  getGitBranchLockfileNames :: "string \<Rightarrow> js_error + string list"
  path_exists :: "string \<Rightarrow> bool"
  gfs_readFile :: "string \<Rightarrow> js_error + string"
  parseYarnLock :: "string \<Rightarrow> js_error + string \<times> YarnPackgeLock"
  loadJsonFile :: "string \<Rightarrow> js_error + LockedPackage"

section \<open>Schema migration (\<^verbatim>\<open>_read\<close>, lines 134 to 148)\<close>

text \<open>
  Modelled from the spec: \<^verbatim>\<open>DEPENDENCIES_FIELDS\<close> is imported from \<^verbatim>\<open>@pnpm/types\<close>,
  which is not among the sources; the known dependency-field kinds are the regular, dev
  and optional ones.
\<close>

definition DEPENDENCIES_FIELDS :: "string list" where
  "DEPENDENCIES_FIELDS = [''dependencies'', ''devDependencies'', ''optionalDependencies'']"

text \<open>
  The body of the loop over \<^verbatim>\<open>DEPENDENCIES_FIELDS\<close>. The state is the document root and
  the object that \<^verbatim>\<open>lockfile.importers['.']\<close> refers to; an assignment to a property of
  the latter shows in the former.
\<close>

definition move_dependency_field ::
  "string \<Rightarrow> js_object \<times> js_object \<Rightarrow> js_object \<times> js_object" where
  "move_dependency_field depType st =
     (case st of (root, importer) \<Rightarrow>
        if nullish (get_prop root depType) then (root, importer)
        else
          let importer' = importer(depType \<mapsto> get_prop root depType)
          in ((root(''importers'' \<mapsto> Obj [''.'' \<mapsto> Obj importer']))(depType := None),
              importer'))"

definition migrate :: "js_object option \<Rightarrow> js_object option" where
  "migrate doc =
     (case optional_get doc ''specifiers'' of
        Undefined \<Rightarrow> doc
      | _ \<Rightarrow>
         (case doc of
            None \<Rightarrow> None
          | Some root \<Rightarrow>
              let importer = [''specifiers'' \<mapsto> get_prop root ''specifiers'',
                              ''dependenciesMeta'' \<mapsto> get_prop root ''dependenciesMeta''];
                  root1 = root(''importers'' \<mapsto> Obj [''.'' \<mapsto> Obj importer]);
                  root2 = root1(''specifiers'' := None)
              in Some (fst (fold move_dependency_field DEPENDENCIES_FIELDS (root2, importer)))))"

section \<open>The shared read routine \<^verbatim>\<open>_read\<close>\<close>

text \<open>
  The functions \<^verbatim>\<open>_read\<close>, \<^verbatim>\<open>_mergeGitBranchLockfiles\<close> and
  \<^verbatim>\<open>_readGitBranchLockfiles\<close> are \<open>priv_read\<close>, \<open>priv_mergeGitBranchLockfiles\<close> and
  \<open>priv_readGitBranchLockfiles\<close> here. The three parts of \<^verbatim>\<open>_read\<close> after the file is
  read are \<open>parse_lockfile\<close>, \<open>migrate\<close> and \<open>check_version\<close>.
\<close>

text \<open>Lines 117 to 132: parse, or resolve the merge conflicts of a text that does not parse.\<close>

definition parse_lockfile ::
  "env \<Rightarrow> string \<Rightarrow> string \<Rightarrow> read_opts \<Rightarrow> string \<Rightarrow> (js_object option \<times> bool) io" where
  "parse_lockfile env lockfilePath prefix opts lockfileRawContent =
     (case yaml_load env lockfileRawContent of
        Inr doc \<Rightarrow> pure (doc, False)
      | Inl message \<Rightarrow>
          if autofixMergeConflicts opts \<noteq> Some True \<or> \<not> isDiff env lockfileRawContent
          then throw (PnpmError ''BROKEN_LOCKFILE''
                 (''The lockfile at '' @ [CHR 0x22] @ lockfilePath @ [CHR 0x22]
                    @ '' is broken: '' @ message))
          else
            (case autofix env lockfileRawContent of
               Inl e \<Rightarrow> throw e
             | Inr doc \<Rightarrow>
                 ([Info (''Merge conflict detected in '' @ WANTED_LOCKFILE env
                           @ '' and successfully merged'') prefix],
                  Inr (doc, True))))"

text \<open>\<^verbatim>\<open>comverToSemver((lockfile.lockfileVersion ?? 0).toString())\<close>\<close>

definition lockfileSemver :: "env \<Rightarrow> js_object \<Rightarrow> js_error + string" where
  "lockfileSemver env root =
     (let v = get_prop root ''lockfileVersion'' in
      case toString (if nullish v then Num ''0'' else v) of
        Inl e \<Rightarrow> Inl e
      | Inr s \<Rightarrow> Inr (comverToSemver env s))"

text \<open>Lines 163 to 170: what happens to a document that was not accepted.\<close>

definition not_compatible :: "string \<Rightarrow> string \<Rightarrow> read_opts \<Rightarrow> read_result io" where
  "not_compatible lockfilePath prefix opts =
     (if ignoreIncompatible opts
      then ([Warn (''Ignoring not compatible lockfile at '' @ lockfilePath) prefix],
            Inr \<lparr>lockfile = None, hadConflicts = False\<rparr>)
      else throw (LockfileBreakingChangeError lockfilePath))"

text \<open>Lines 149 to 170: the version-compatibility check.\<close>

definition check_version ::
  "env \<Rightarrow> string \<Rightarrow> string \<Rightarrow> read_opts \<Rightarrow> js_object option \<Rightarrow> bool \<Rightarrow> read_result io" where
  "check_version env lockfilePath prefix opts doc conflicts =
     (case doc of
        None \<Rightarrow> not_compatible lockfilePath prefix opts
      | Some root \<Rightarrow>
          and_then (lift (lockfileSemver env root)) (\<lambda>lockfileSemver.
            case wantedVersion opts of
              None \<Rightarrow> pure \<lparr>lockfile = Some root, hadConflicts = conflicts\<rparr>
            | Some wanted \<Rightarrow>
                and_then (lift (semver_major env lockfileSemver)) (\<lambda>major.
                and_then (lift (semver_major env (comverToSemver env wanted))) (\<lambda>wantedMajor.
                  if major = wantedMajor
                  then
                    and_then (lift (semver_gt env lockfileSemver (comverToSemver env wanted)))
                      (\<lambda>newer.
                        ((if newer
                          then [Warn (''Your '' @ WANTED_LOCKFILE env
                                  @ '' was generated by a newer version of pnpm. ''
                                  @ ''It is a compatible version but it might get downgraded to version ''
                                  @ wanted) prefix]
                          else []),
                         Inr \<lparr>lockfile = Some root, hadConflicts = conflicts\<rparr>))
                  else not_compatible lockfilePath prefix opts))))"

definition priv_read :: "env \<Rightarrow> string \<Rightarrow> string \<Rightarrow> read_opts \<Rightarrow> read_result io" where
  "priv_read env lockfilePath prefix opts =
     (case fs_readFile env lockfilePath of
        Inl err \<Rightarrow>
          if error_code err \<noteq> Some ''ENOENT'' then throw err
          else pure \<lparr>lockfile = None, hadConflicts = False\<rparr>
      | Inr content \<Rightarrow>
          and_then (parse_lockfile env lockfilePath prefix opts (stripBom env content))
            (\<lambda>(doc, conflicts).
               check_version env lockfilePath prefix opts (migrate doc) conflicts))"

text \<open>
  The options a caller passes on as they are (no \<^verbatim>\<open>autofixMergeConflicts\<close> property),
  and \<^verbatim>\<open>{ ...opts, autofixMergeConflicts: true }\<close>.
\<close>

definition without_autofix :: "'a lockfile_opts_scheme \<Rightarrow> read_opts" where
  "without_autofix opts =
     \<lparr>wantedVersion = wantedVersion opts, ignoreIncompatible = ignoreIncompatible opts,
      autofixMergeConflicts = None\<rparr>"


definition readCurrentLockfile :: "env \<Rightarrow> string \<Rightarrow> lockfile_opts \<Rightarrow> js_object option io" where
  "readCurrentLockfile env virtualStoreDir opts =
     and_then
       (priv_read env (path_join env virtualStoreDir ''lock.yaml'') virtualStoreDir
          (without_autofix opts))
       (\<lambda>result. pure (lockfile result))"

section \<open>Branch lockfiles\<close>

definition priv_readGitBranchLockfiles ::
  "env \<Rightarrow> string \<Rightarrow> string \<Rightarrow> read_opts \<Rightarrow> read_result list io" where
  "priv_readGitBranchLockfiles env lockfileDir prefix opts =
     and_then (lift (getGitBranchLockfileNames env lockfileDir)) (\<lambda>files.
       promise_all
         (map (\<lambda>file. priv_read env (path_join env lockfileDir file) prefix opts) files))"

text \<open>The body of the loop of \<^verbatim>\<open>_mergeGitBranchLockfiles\<close> (lines 208 to 213).\<close>

definition merge_packages :: "js_object option \<Rightarrow> js_object \<Rightarrow> js_object" where
  "merge_packages gitBranchLockfile base =
     (if truthy (optional_get gitBranchLockfile ''packages'')
      then base(''packages'' \<mapsto>
             Obj (spread (get_prop base ''packages'')
                  ++ spread (optional_get gitBranchLockfile ''packages'')))
      else base)"

definition priv_mergeGitBranchLockfiles ::
  "env \<Rightarrow> js_object option \<Rightarrow> string \<Rightarrow> string \<Rightarrow> read_opts \<Rightarrow> js_object option io" where
  "priv_mergeGitBranchLockfiles env base lockfileDir prefix opts =
     (case base of
        None \<Rightarrow> pure None
      | Some root \<Rightarrow>
          and_then (priv_readGitBranchLockfiles env lockfileDir prefix opts) (\<lambda>results.
            pure (Some (fold merge_packages (map lockfile results) root))))"

section \<open>The wanted lockfile\<close>

definition lockfileNames :: "env \<Rightarrow> wanted_opts \<Rightarrow> string list io" where
  "lockfileNames env opts =
     (if useGitBranchLockfile opts = Some True
      then and_then (lift (getWantedLockfileName env opts)) (\<lambda>gitBranchLockfileName.
             pure (if gitBranchLockfileName \<noteq> WANTED_LOCKFILE env
                   then [gitBranchLockfileName, WANTED_LOCKFILE env]
                   else [WANTED_LOCKFILE env]))
      else pure [WANTED_LOCKFILE env])"



text \<open>The loop of \<^verbatim>\<open>readWantedLockfile\<close> (lines 81 to 89).\<close>

fun candidates ::
  "env \<Rightarrow> string \<Rightarrow> wanted_opts \<Rightarrow> string list \<Rightarrow> js_object option \<Rightarrow> js_object option io" where
  "candidates env pkgPath opts [] found = pure found"
| "candidates env pkgPath opts (lockfileName # names) found =
     and_then
       (priv_read env (path_join env pkgPath lockfileName) pkgPath (without_autofix opts))
       (\<lambda>result.
          case lockfile result of
            None \<Rightarrow> candidates env pkgPath opts names None
          | Some root \<Rightarrow>
              if mergeGitBranchLockfiles opts = Some True
              then priv_mergeGitBranchLockfiles env (Some root) pkgPath pkgPath
                     (without_autofix opts)
              else pure (Some root))"

definition readWantedLockfile :: "env \<Rightarrow> string \<Rightarrow> wanted_opts \<Rightarrow> js_object option io" where
  "readWantedLockfile env pkgPath opts =
     and_then (lockfileNames env opts) (\<lambda>names. candidates env pkgPath opts names None)"

section \<open>The import command: versions named by a foreign lock file\<close>

text \<open>
  \<^verbatim>\<open>versionsByPackageNames\<close> is a plain object (\<^verbatim>\<open>{}\<close>) used as a dictionary from package
  names to sets of versions; the map holds its own properties. A plain object inherits the
  members of \<^verbatim>\<open>Object.prototype\<close>, which a read \<^verbatim>\<open>versionsByPackageNames[name]\<close> finds
  when the object has no own property of that name.
\<close>

type_synonym versions_by_name = "string \<rightharpoonup> string set"

definition Object_prototype :: "string list" where
  "Object_prototype =
     [''constructor'', ''__defineGetter__'', ''__defineSetter__'', ''hasOwnProperty'',
      ''__lookupGetter__'', ''__lookupSetter__'', ''isPrototypeOf'',
      ''propertyIsEnumerable'', ''toString'', ''valueOf'', ''__proto__'',
      ''toLocaleString'']"

text \<open>
  The body shared by the two walks (lines 166 to 169 and 184 to 187):
  \<^verbatim>\<open>if (!versionsByPackageNames[name]) versionsByPackageNames[name] = new Set()\<close> and then
  \<^verbatim>\<open>versionsByPackageNames[name].add(version)\<close>. An inherited member is truthy, so no set
  is created for its name, and it has no \<^verbatim>\<open>add\<close> method.
\<close>

definition add_version ::
  "string \<Rightarrow> string \<Rightarrow> versions_by_name \<Rightarrow> js_error + versions_by_name" where
  "add_version packageName v versionsByPackageNames =
     (case versionsByPackageNames packageName of
        Some versions \<Rightarrow> Inr (versionsByPackageNames(packageName \<mapsto> insert v versions))
      | None \<Rightarrow>
          if packageName \<in> set Object_prototype
          then Inl (TypeError ''versionsByPackageNames[packageName].add is not a function'')
          else Inr (versionsByPackageNames(packageName \<mapsto> {v})))"

text \<open>The first loop of \<^verbatim>\<open>getAllVersionsByPackageNames\<close> (lines 165 to 170).\<close>

fun record_versions ::
  "(string \<times> LockedPackage) list \<Rightarrow> versions_by_name \<Rightarrow> js_error + versions_by_name" where
  "record_versions [] versionsByPackageNames = Inr versionsByPackageNames"
| "record_versions ((packageName, pkg) # rest) versionsByPackageNames =
     (case add_version packageName (version pkg) versionsByPackageNames of
        Inl e \<Rightarrow> Inl e
      | Inr recorded \<Rightarrow> record_versions rest recorded)"

text \<open>\<open>walk_dependencies\<close> is the second loop (lines 171 to 173).\<close>

fun getAllVersionsByPackageNames ::
  "LockedPackage \<Rightarrow> versions_by_name \<Rightarrow> js_error + versions_by_name"
and walk_dependencies ::
  "(string \<times> LockedPackage) list \<Rightarrow> versions_by_name \<Rightarrow> js_error + versions_by_name" where
  "getAllVersionsByPackageNames (LockedPackage v None) versionsByPackageNames =
     Inr versionsByPackageNames"
| "getAllVersionsByPackageNames (LockedPackage v (Some deps)) versionsByPackageNames =
     (case record_versions deps versionsByPackageNames of
        Inl e \<Rightarrow> Inl e
      | Inr recorded \<Rightarrow> walk_dependencies deps recorded)"
| "walk_dependencies [] versionsByPackageNames = Inr versionsByPackageNames"
| "walk_dependencies ((packageName, pkg) # rest) versionsByPackageNames =
     (case getAllVersionsByPackageNames pkg versionsByPackageNames of
        Inl e \<Rightarrow> Inl e
      | Inr walked \<Rightarrow> walk_dependencies rest walked)"

text \<open>
  \<^verbatim>\<open>s.lastIndexOf(c)\<close>: the index of the last occurrence, or -1. \<open>last_index\<close> scans the
  string from position \<open>i\<close> with the last index found so far.
\<close>

fun last_index :: "char \<Rightarrow> string \<Rightarrow> nat \<Rightarrow> int \<Rightarrow> int" where
  "last_index c [] i found = found"
| "last_index c (x # xs) i found = last_index c xs (Suc i) (if x = c then int i else found)"

definition lastIndexOf :: "string \<Rightarrow> char \<Rightarrow> int" where
  "lastIndexOf s c = last_index c s 0 (- 1)"

text \<open>
  \<^verbatim>\<open>s.substring(start, end)\<close>: both indices are clamped to the string, and swapped when
  the first is the greater.
\<close>

definition substring :: "string \<Rightarrow> int \<Rightarrow> int \<Rightarrow> string" where
  "substring s indexStart indexEnd =
     (let n = int (length s);
          a = max 0 (min indexStart n);
          b = max 0 (min indexEnd n)
      in take (nat (max a b - min a b)) (drop (nat (min a b)) s))"

fun getAllVersionsFromYarnLockFile ::
  "YarnPackgeLock \<Rightarrow> versions_by_name \<Rightarrow> js_error + versions_by_name" where
  "getAllVersionsFromYarnLockFile [] versionsByPackageNames = Inr versionsByPackageNames"
| "getAllVersionsFromYarnLockFile ((packageName, entry) # rest) versionsByPackageNames =
     (let pkgName = substring packageName 0 (lastIndexOf packageName CHR ''@'') in
      case add_version pkgName (yarn_version entry) versionsByPackageNames of
        Inl e \<Rightarrow> Inl e
      | Inr recorded \<Rightarrow> getAllVersionsFromYarnLockFile rest recorded)"

text \<open>
  \<^verbatim>\<open>getPreferredVersions\<close>: for every own key of \<^verbatim>\<open>versionsByPackageNames\<close>, an object
  with one property per version of the set, of value \<^verbatim>\<open>'version'\<close>. An assignment
  \<^verbatim>\<open>obj['__proto__'] = ...\<close> reaches the inherited accessor and creates no own property.
\<close>

type_synonym preferred_versions = "string \<rightharpoonup> (string \<rightharpoonup> string)"

definition getPreferredVersions :: "versions_by_name \<Rightarrow> preferred_versions" where
  "getPreferredVersions versionsByPackageNames =
     (\<lambda>packageName.
        if packageName = ''__proto__'' then None
        else
          (case versionsByPackageNames packageName of
             None \<Rightarrow> None
           | Some versions \<Rightarrow>
               Some (\<lambda>v. if v \<in> versions \<and> v \<noteq> ''__proto__'' then Some ''version''
                          else None)))"

definition readYarnLockFile :: "env \<Rightarrow> string \<Rightarrow> js_error + YarnPackgeLock" where
  "readYarnLockFile env dir =
     (let attempt =
        (case gfs_readFile env (path_join env dir ''yarn.lock'') of
           Inl e \<Rightarrow> Inl e
         | Inr yarnLockFile \<Rightarrow>
             (case parseYarnLock env yarnLockFile of
                Inl e \<Rightarrow> Inl e
              | Inr (type, object) \<Rightarrow>
                  if type = ''success'' then Inr object
                  else Inl (PnpmError ''GET_YARN_LOCKFILE_ERR'' (''Failed With '' @ type))))
      in case attempt of
           Inr object \<Rightarrow> Inr object
         | Inl err \<Rightarrow>
             if error_code err \<noteq> Some ''ENOENT'' then Inl err
             else Inl (PnpmError ''YARN_LOCKFILE_NOT_FOUND'' ''No yarn.lock found''))"

definition readNpmLockfile :: "env \<Rightarrow> string \<Rightarrow> js_error + LockedPackage" where
  "readNpmLockfile env dir =
     (case loadJsonFile env (path_join env dir ''package-lock.json'') of
        Inr npmPackageLock \<Rightarrow> Inr npmPackageLock
      | Inl err \<Rightarrow>
          if error_code err \<noteq> Some ''ENOENT'' then Inl err
          else
            (case loadJsonFile env (path_join env dir ''npm-shrinkwrap.json'') of
               Inr npmPackageLock \<Rightarrow> Inr npmPackageLock
             | Inl err \<Rightarrow>
                 if error_code err \<noteq> Some ''ENOENT'' then Inl err
                 else Inl (PnpmError ''NPM_LOCKFILE_NOT_FOUND''
                        ''No package-lock.json or npm-shrinkwrap.json found'')))"

text \<open>
  Lines 55 to 69 of \<^verbatim>\<open>handler\<close>: the preferred versions handed to the installation, from
  the lock file of another package manager in \<^verbatim>\<open>opts.dir\<close>.
\<close>

definition handler_preferredVersions :: "env \<Rightarrow> string \<Rightarrow> js_error + preferred_versions" where
  "handler_preferredVersions env dir =
     (case
        (if path_exists env (path_join env dir ''yarn.lock'')
         then
           (case readYarnLockFile env dir of
              Inl e \<Rightarrow> Inl e
            | Inr yarnPackgeLockFile \<Rightarrow>
                getAllVersionsFromYarnLockFile yarnPackgeLockFile Map.empty)
         else if path_exists env (path_join env dir ''package-lock.json'')
                 \<or> path_exists env (path_join env dir ''npm-shrinkwrap.json'')
         then
           (case readNpmLockfile env dir of
              Inl e \<Rightarrow> Inl e
            | Inr npmPackageLock \<Rightarrow> getAllVersionsByPackageNames npmPackageLock Map.empty)
         else Inl (PnpmError ''LOCKFILE_NOT_FOUND'' ''No lockfile found''))
      of
        Inl e \<Rightarrow> Inl e
      | Inr versionsByPackageNames \<Rightarrow> Inr (getPreferredVersions versionsByPackageNames))"

section \<open>The merge of branch lockfiles, as the specification words it\<close>

text \<open>
  The \<^verbatim>\<open>packages\<close> values of the branch lockfiles that have one, in enumeration order, are
  merged into the base's \<^verbatim>\<open>packages\<close> map, later branch files winning on key collision:
  a key has the value of the last branch file that holds it, and the base's value when no
  branch file holds it. \<open>latest_entry\<close> looks a key up in a list of \<^verbatim>\<open>packages\<close> values
  that starts with the last one.
\<close>

fun latest_entry :: "jsval list \<Rightarrow> string \<Rightarrow> jsval option" where
  "latest_entry [] p = None"
| "latest_entry (packages # earlier) p =
     (case spread packages p of Some v \<Rightarrow> Some v | None \<Rightarrow> latest_entry earlier p)"

definition later_wins :: "jsval list \<Rightarrow> js_object \<Rightarrow> js_object" where
  "later_wins branch_packages base_packages =
     (\<lambda>p. case latest_entry (rev branch_packages) p of
             Some v \<Rightarrow> Some v
           | None \<Rightarrow> base_packages p)"

definition packages_of :: "read_result list \<Rightarrow> jsval list" where
  "packages_of results =
     filter truthy (map (\<lambda>result. optional_get (lockfile result) ''packages'') results)"

section \<open>The versions a foreign lock file names, as the specification words it\<close>

text \<open>
  The pairs of package name and version of the nodes of an npm lock tree, at any depth: the
  children of a node, then the nodes below each child.
\<close>

fun nodes :: "LockedPackage \<Rightarrow> (string \<times> string) list"
and nodes_below :: "(string \<times> LockedPackage) list \<Rightarrow> (string \<times> string) list" where
  "nodes (LockedPackage v None) = []"
| "nodes (LockedPackage v (Some deps)) =
     map (\<lambda>(packageName, pkg). (packageName, version pkg)) deps @ nodes_below deps"
| "nodes_below [] = []"
| "nodes_below ((packageName, pkg) # rest) = nodes pkg @ nodes_below rest"

text \<open>The pairs of package name and version of the entries of a yarn lock.\<close>

definition yarn_entries :: "YarnPackgeLock \<Rightarrow> (string \<times> string) list" where
  "yarn_entries yarnPackageLock =
     map (\<lambda>(key, entry). (substring key 0 (lastIndexOf key CHR ''@''), yarn_version entry))
       yarnPackageLock"

text \<open>
  The versions by package name once the pairs \<open>observed\<close> are recorded: every name has
  the set of the versions observed with it, besides those it had.
\<close>

definition observed_versions :: "(string \<times> string) list \<Rightarrow> string \<Rightarrow> string set" where
  "observed_versions observed packageName =
     set (map snd (filter (\<lambda>pair. fst pair = packageName) observed))"

definition with_observed :: "(string \<times> string) list \<Rightarrow> versions_by_name \<Rightarrow> versions_by_name" where
  "with_observed observed versionsByPackageNames =
     (\<lambda>packageName.
        if observed_versions observed packageName = {} then versionsByPackageNames packageName
        else Some (observed_versions observed packageName
                   \<union> (case versionsByPackageNames packageName of
                        None \<Rightarrow> {}
                      | Some versions \<Rightarrow> versions)))"

section \<open>A sample environment\<close>

text \<open>
  Modelled from the spec: the packages \<^verbatim>\<open>comver-to-semver\<close> and \<^verbatim>\<open>semver\<close> are not among
  the sources. A comver is a compact major.minor encoding, converted to the full
  semantic-version form; the sample versions are three dot-separated decimal numbers,
  compared component by component. The theorems below hold for any collaborators; these
  serve the examples.
\<close>

definition sample_comverToSemver :: "string \<Rightarrow> string" where
  "sample_comverToSemver comver =
     (if CHR ''.'' \<in> set comver then comver @ ''.0'' else comver @ ''.0.0'')"

fun parse_digits :: "string \<Rightarrow> nat \<Rightarrow> nat option" where
  "parse_digits [] n = Some n"
| "parse_digits (c # cs) n =
     (case map_of (zip ''0123456789'' [0, 1, 2, 3, 4, 5, 6, 7, 8, 9]) c of
        None \<Rightarrow> None
      | Some d \<Rightarrow> parse_digits cs (10 * n + d))"

fun split_dots :: "string \<Rightarrow> string list" where
  "split_dots [] = [[]]"
| "split_dots (c # cs) =
     (if c = CHR ''.'' then [] # split_dots cs
      else (case split_dots cs of [] \<Rightarrow> [[c]] | part # parts \<Rightarrow> (c # part) # parts))"

definition parse_version :: "string \<Rightarrow> (nat \<times> nat \<times> nat) option" where
  "parse_version s =
     (case map (\<lambda>part. if part = [] then None else parse_digits part 0) (split_dots s) of
        [Some a, Some b, Some c] \<Rightarrow> Some (a, b, c)
      | _ \<Rightarrow> None)"

definition sample_major :: "string \<Rightarrow> js_error + nat" where
  "sample_major s =
     (case parse_version s of
        None \<Rightarrow> Inl (TypeError (''Invalid Version: '' @ s))
      | Some (a, b, c) \<Rightarrow> Inr a)"

definition sample_gt :: "string \<Rightarrow> string \<Rightarrow> js_error + bool" where
  "sample_gt s t =
     (case (parse_version s, parse_version t) of
        (Some (a, b, c), Some (a', b', c')) \<Rightarrow>
          Inr (a > a' \<or> (a = a' \<and> (b > b' \<or> (b = b' \<and> c > c'))))
      | _ \<Rightarrow> Inl (TypeError ''Invalid Version''))"

text \<open>
  A parser that knows a few texts, a few documents, and a directory given by the list of
  its files with their contents and the list of its branch lockfile names.
\<close>

definition lockfile_5_4 :: js_object where
  "lockfile_5_4 =
     [''lockfileVersion'' \<mapsto> Num ''5.4'',
      ''importers'' \<mapsto> Obj [''.'' \<mapsto> Obj [''specifiers'' \<mapsto> Obj [''a'' \<mapsto> Str ''^1.0.0'']]],
      ''packages'' \<mapsto> Obj [''A'' \<mapsto> Str ''v1'']]"

definition lockfile_5_10 :: js_object where
  "lockfile_5_10 = [''lockfileVersion'' \<mapsto> Str ''5.10'']"

definition lockfile_6 :: js_object where
  "lockfile_6 = [''lockfileVersion'' \<mapsto> Num ''6'']"

definition legacy_lockfile :: js_object where
  "legacy_lockfile =
     [''lockfileVersion'' \<mapsto> Num ''5.3'',
      ''specifiers'' \<mapsto> Obj [''a'' \<mapsto> Str ''^1.0.0'', ''b'' \<mapsto> Str ''^2.0.0''],
      ''dependencies'' \<mapsto> Obj [''a'' \<mapsto> Str ''1.0.0''],
      ''devDependencies'' \<mapsto> Obj [''b'' \<mapsto> Str ''2.0.0'']]"

definition branch_b_lockfile :: js_object where
  "branch_b_lockfile =
     [''lockfileVersion'' \<mapsto> Num ''5.4'', ''packages'' \<mapsto> Obj [''B'' \<mapsto> Str ''v1'']]"

definition branch_a_lockfile :: js_object where
  "branch_a_lockfile =
     [''lockfileVersion'' \<mapsto> Num ''5.4'', ''packages'' \<mapsto> Obj [''A'' \<mapsto> Str ''v2'']]"

definition conflict_text :: string where
  "conflict_text = ''<<<<<<< HEAD | lockfileVersion: 6.0 | ======= | lockfileVersion: 6.0 | >>>>>>> next''"

definition sample_yaml_load :: "string \<Rightarrow> string + js_object option" where
  "sample_yaml_load text =
     (if text = [] then Inr None
      else if text = ''{lockfileVersion: 5.4, importers: {.: {specifiers: {a: ^1.0.0}}}, packages: {A: v1}}''
      then Inr (Some lockfile_5_4)
      else if text = ''lockfileVersion: !!str 5.10'' then Inr (Some lockfile_5_10)
      else if text = ''lockfileVersion: 6.0'' then Inr (Some lockfile_6)
      else if text = ''{lockfileVersion: 5.4, packages: {B: v1}}'' then Inr (Some branch_b_lockfile)
      else if text = ''{lockfileVersion: 5.4, packages: {A: v2}}'' then Inr (Some branch_a_lockfile)
      else Inl ''end of the stream or a document separator is expected'')"

definition sample_env :: "(string \<times> string) list \<Rightarrow> string list \<Rightarrow> env" where
  "sample_env files branches =
     \<lparr>WANTED_LOCKFILE = ''pnpm-lock.yaml'',
      path_join = (\<lambda>dir file. dir @ ''/'' @ file),
      fs_readFile = (\<lambda>path. case map_of files path of
                        None \<Rightarrow> Inl (Thrown (Some ''ENOENT'') ''no such file or directory'')
                      | Some text \<Rightarrow>
                          if text = ''(unreadable)''
                          then Inl (Thrown (Some ''EACCES'') ''permission denied'')
                          else Inr text),
      stripBom = (\<lambda>text. text),
      yaml_load = sample_yaml_load,
      isDiff = (\<lambda>text. take 7 text = ''<<<<<<<''),
      autofix = (\<lambda>text. if text = conflict_text then Inr (Some lockfile_6)
                        else Inl (Thrown None ''Unexpected end of file'')),
      comverToSemver = sample_comverToSemver,
      semver_major = sample_major,
      semver_gt = sample_gt,
      getWantedLockfileName = (\<lambda>opts. Inr ''pnpm-lock.yaml''),
      getGitBranchLockfileNames = (\<lambda>dir. Inr branches),
      path_exists = (\<lambda>path. map_of files path \<noteq> None),
      gfs_readFile = (\<lambda>path. case map_of files path of
                         None \<Rightarrow> Inl (Thrown (Some ''ENOENT'') ''no such file or directory'')
                       | Some text \<Rightarrow> Inr text),
      parseYarnLock = (\<lambda>text.
         if text = ''lodash@^4.17.0: version 4.17.21''
         then Inr (''success'',
                [(''lodash@^4.17.0'',
                  \<lparr>yarn_version = ''4.17.21'', resolved = [], integrity = [],
                   yarn_dependencies = None\<rparr>)])
         else if text = ''constructor@^1.0.0: version 1.0.0''
         then Inr (''success'',
                [(''constructor@^1.0.0'',
                  \<lparr>yarn_version = ''1.0.0'', resolved = [], integrity = [],
                   yarn_dependencies = None\<rparr>)])
         else Inl (Thrown None ''Unknown token'')),
      loadJsonFile = (\<lambda>path. case map_of files path of
                         None \<Rightarrow> Inl (Thrown (Some ''ENOENT'') ''no such file or directory'')
                       | Some text \<Rightarrow>
                           if text = ''{dependencies: {lodash: ...}}''
                           then Inr (LockedPackage ''1.0.0''
                                  (Some [(''lodash'', LockedPackage ''4.17.0''
                                     (Some [(''debug'', LockedPackage ''1.0.0'' None)]))]))
                           else if text = ''{dependencies: {constructor: {version: 1.0.0}}}''
                           then Inr (LockedPackage ''0.1.0''
                                  (Some [(''constructor'', LockedPackage ''1.0.0'' None)]))
                           else Inl (Thrown None ''Unexpected token''))\<rparr>"

section \<open>Schema migration is idempotent\<close>

lemma get_prop_None [simp]: "obj k = None \<Longrightarrow> get_prop obj k = Undefined"
  by (simp add: get_prop_def)

lemma move_dependency_field_specifiers:
  "depType \<noteq> ''importers'' \<Longrightarrow> fst st ''specifiers'' = None \<Longrightarrow>
   fst (move_dependency_field depType st) ''specifiers'' = None"
  by (cases st) (simp add: move_dependency_field_def Let_def)

lemma migrate_removes_specifiers:
  "migrate (Some root) = Some root' \<Longrightarrow> get_prop root' ''specifiers'' = Undefined"
  by (auto simp: migrate_def optional_get_def DEPENDENCIES_FIELDS_def Let_def
        move_dependency_field_specifiers split: jsval.splits)

text \<open>
  C6. Schema migration is idempotent: migrating a migrated document changes nothing. The
  migration triggers only when the document root has a \<^verbatim>\<open>specifiers\<close> property: a
  document without one, and an absent document, are returned as they are.
\<close>

theorem migrate_idempotent:
  "migrate (migrate doc) = migrate doc
   \<and> (\<forall>root. doc = Some root \<longrightarrow> root ''specifiers'' = None \<longrightarrow> migrate doc = doc)
   \<and> migrate None = None"
proof (intro conjI allI impI)
  show "migrate (migrate doc) = migrate doc"
  proof (cases "migrate doc")
    case None
    then show ?thesis by (simp add: migrate_def optional_get_def)
  next
    case (Some root')
    then obtain root where "doc = Some root"
      by (cases doc) (auto simp: migrate_def optional_get_def)
    with Some have "get_prop root' ''specifiers'' = Undefined"
      by (simp add: migrate_removes_specifiers)
    with Some show ?thesis by (simp add: migrate_def optional_get_def)
  qed
next
  fix root assume "doc = Some root" "root ''specifiers'' = None"
  then show "migrate doc = doc" by (simp add: migrate_def optional_get_def)
next
  show "migrate None = None" by (simp add: migrate_def optional_get_def)
qed

theorem migrate_idempotent_witness:
  "migrate (migrate (Some legacy_lockfile)) = migrate (Some legacy_lockfile)
   \<and> migrate (Some legacy_lockfile) \<noteq> Some legacy_lockfile
   \<and> migrate (Some lockfile_5_4) = Some lockfile_5_4"
proof -
  have "lockfile_5_4 ''specifiers'' = None"
    by (simp add: lockfile_5_4_def)
  moreover have "migrate (Some legacy_lockfile) \<noteq> Some legacy_lockfile"
  proof
    assume "migrate (Some legacy_lockfile) = Some legacy_lockfile"
    then have "get_prop legacy_lockfile ''specifiers'' = Undefined"
      by (rule migrate_removes_specifiers)
    then show False by (simp add: legacy_lockfile_def get_prop_def)
  qed
  ultimately show ?thesis
    using migrate_idempotent [of "Some legacy_lockfile"]
      migrate_idempotent [of "Some lockfile_5_4"]
    by simp
qed

section \<open>The shared read routine: reading, parsing, version check\<close>

lemma and_then_pure [simp]: "and_then (pure x) f = f x"
  by (simp add: and_then_def pure_def split: prod.splits)

lemma and_then_throw [simp]: "and_then (throw e) f = throw e"
  by (simp add: and_then_def throw_def)

lemma and_then_lift_Inr [simp]: "and_then (lift (Inr x)) f = f x"
  by (simp add: and_then_def lift_def split: prod.splits)

lemma and_then_lift_Inl [simp]: "and_then (lift (Inl e)) f = throw e"
  by (simp add: and_then_def lift_def throw_def)

lemma and_then_events:
  "and_then (events, Inr x) f = (events @ fst (f x), snd (f x))"
  by (simp add: and_then_def split: prod.splits)

lemma and_then_failed [simp]: "and_then (events, Inl e) f = (events, Inl e)"
  by (simp add: and_then_def)

lemma migrate_Some: "\<exists>root'. migrate (Some root) = Some root'"
  by (simp add: migrate_def optional_get_def Let_def split: jsval.splits)

text \<open>
  C7. A lockfile that does not exist (reading it fails with code ENOENT) is an absent
  lockfile without conflicts, and nothing is logged; a read failure with any other code is
  thrown to the caller as it is.
\<close>

theorem read_missing_file:
  "(fs_readFile env lockfilePath = Inl err \<and> error_code err = Some ''ENOENT'' \<longrightarrow>
      priv_read env lockfilePath prefix opts
        = ([], Inr \<lparr>lockfile = None, hadConflicts = False\<rparr>))
   \<and> (fs_readFile env lockfilePath = Inl err \<and> error_code err \<noteq> Some ''ENOENT'' \<longrightarrow>
      priv_read env lockfilePath prefix opts = ([], Inl err))"
  by (simp add: priv_read_def pure_def throw_def)

theorem read_missing_file_witness:
  "priv_read (sample_env [] []) ''/repo/pnpm-lock.yaml'' ''/repo''
     \<lparr>wantedVersion = Some ''5.4'', ignoreIncompatible = False, autofixMergeConflicts = None\<rparr>
     = ([], Inr \<lparr>lockfile = None, hadConflicts = False\<rparr>)
   \<and> priv_read (sample_env [(''/repo/pnpm-lock.yaml'', ''(unreadable)'')] [])
       ''/repo/pnpm-lock.yaml'' ''/repo''
       \<lparr>wantedVersion = Some ''5.4'', ignoreIncompatible = False, autofixMergeConflicts = None\<rparr>
     = ([], Inl (Thrown (Some ''EACCES'') ''permission denied''))"
proof -
  have missing:
    "fs_readFile (sample_env [] []) ''/repo/pnpm-lock.yaml''
       = Inl (Thrown (Some ''ENOENT'') ''no such file or directory'')"
    by (simp add: sample_env_def)
  have denied:
    "fs_readFile (sample_env [(''/repo/pnpm-lock.yaml'', ''(unreadable)'')] [])
       ''/repo/pnpm-lock.yaml'' = Inl (Thrown (Some ''EACCES'') ''permission denied'')"
    by (simp add: sample_env_def)
  show ?thesis
    using missing denied
      read_missing_file [of "sample_env [] []" "''/repo/pnpm-lock.yaml''"
        "Thrown (Some ''ENOENT'') ''no such file or directory''"]
      read_missing_file [of "sample_env [(''/repo/pnpm-lock.yaml'', ''(unreadable)'')] []"
        "''/repo/pnpm-lock.yaml''" "Thrown (Some ''EACCES'') ''permission denied''"]
    by simp
qed

text \<open>
  C9. A lockfile file that exists and whose text parses to no document (an empty file) is
  not the no-lockfile case: whatever the wanted version, and also without one, the read
  fails with \<open>LockfileBreakingChangeError\<close> for the file when \<^verbatim>\<open>ignoreIncompatible\<close> is
  false, and logs a warning and returns an absent lockfile when it is true.
\<close>

theorem read_empty_document:
  assumes "fs_readFile env lockfilePath = Inr content"
    and "yaml_load env (stripBom env content) = Inr None"
  shows "priv_read env lockfilePath prefix opts =
      (if ignoreIncompatible opts
       then ([Warn (''Ignoring not compatible lockfile at '' @ lockfilePath) prefix],
             Inr \<lparr>lockfile = None, hadConflicts = False\<rparr>)
       else ([], Inl (LockfileBreakingChangeError lockfilePath)))"
  using assms
  by (simp add: priv_read_def parse_lockfile_def migrate_def optional_get_def
      check_version_def not_compatible_def throw_def)

theorem read_empty_document_witness:
  "priv_read (sample_env [(''/repo/pnpm-lock.yaml'', [])] []) ''/repo/pnpm-lock.yaml'' ''/repo''
     \<lparr>wantedVersion = None, ignoreIncompatible = False, autofixMergeConflicts = None\<rparr>
     = ([], Inl (LockfileBreakingChangeError ''/repo/pnpm-lock.yaml''))
   \<and> priv_read (sample_env [(''/repo/pnpm-lock.yaml'', [])] []) ''/repo/pnpm-lock.yaml'' ''/repo''
     \<lparr>wantedVersion = None, ignoreIncompatible = True, autofixMergeConflicts = None\<rparr>
     = ([Warn ''Ignoring not compatible lockfile at /repo/pnpm-lock.yaml'' ''/repo''],
        Inr \<lparr>lockfile = None, hadConflicts = False\<rparr>)"
proof -
  let ?env = "sample_env [(''/repo/pnpm-lock.yaml'', [])] []"
  have content: "fs_readFile ?env ''/repo/pnpm-lock.yaml'' = Inr []"
    by (simp add: sample_env_def)
  have parsed: "yaml_load ?env (stripBom ?env []) = Inr None"
    by (simp add: sample_env_def sample_yaml_load_def)
  show ?thesis
    using read_empty_document [OF content parsed, of "''/repo''"
        "\<lparr>wantedVersion = None, ignoreIncompatible = False, autofixMergeConflicts = None\<rparr>"]
      read_empty_document [OF content parsed, of "''/repo''"
        "\<lparr>wantedVersion = None, ignoreIncompatible = True, autofixMergeConflicts = None\<rparr>"]
    by simp
qed

lemma move_dependency_field_other:
  "k \<noteq> ''importers'' \<Longrightarrow> k \<noteq> depType \<Longrightarrow>
   fst (move_dependency_field depType st) k = fst st k"
  by (cases st) (simp add: move_dependency_field_def Let_def)

lemma migrate_keeps:
  assumes "migrate (Some root) = Some migrated"
    and "k \<notin> {''importers'', ''specifiers'', ''dependencies'', ''devDependencies'',
                ''optionalDependencies''}"
  shows "migrated k = root k"
proof (cases "get_prop root ''specifiers'' = Undefined")
  case True
  with assms show ?thesis by (simp add: migrate_def optional_get_def)
next
  case False
  with assms show ?thesis
    by (auto simp: migrate_def optional_get_def DEPENDENCIES_FIELDS_def Let_def
          move_dependency_field_other split: jsval.splits)
qed

lemma lockfileSemver_migrate:
  "migrate (Some root) = Some migrated \<Longrightarrow> lockfileSemver env migrated = lockfileSemver env root"
  using migrate_keeps [of root migrated "''lockfileVersion''"]
  by (simp add: lockfileSemver_def get_prop_def)

text \<open>
  C1. A lockfile document that was read and parsed goes through the migration and the
  version check; \<open>v\<close> is the semantic version of its \<^verbatim>\<open>lockfileVersion\<close>. Without a wanted
  version the document is accepted. With one, if the majors of the two versions are equal
  the document is accepted, and the downgrade warning is logged exactly when the
  document's version is the greater; if the majors differ, the read returns an absent
  lockfile (and logs a warning) when \<^verbatim>\<open>ignoreIncompatible\<close> is true, and fails with
  \<open>LockfileBreakingChangeError\<close> for the file when it is false.
\<close>

theorem read_version_check:
  assumes "fs_readFile env lockfilePath = Inr content"
    and "yaml_load env (stripBom env content) = Inr (Some root)"
    and "migrate (Some root) = Some migrated"
    and "lockfileSemver env root = Inr v"
  shows
    "(wantedVersion opts = None \<longrightarrow>
        priv_read env lockfilePath prefix opts
          = ([], Inr \<lparr>lockfile = Some migrated, hadConflicts = False\<rparr>))
     \<and> (\<forall>wanted major newer.
          wantedVersion opts = Some wanted
          \<and> semver_major env v = Inr major
          \<and> semver_major env (comverToSemver env wanted) = Inr major
          \<and> semver_gt env v (comverToSemver env wanted) = Inr newer \<longrightarrow>
          priv_read env lockfilePath prefix opts
            = ((if newer
                then [Warn (''Your '' @ WANTED_LOCKFILE env
                        @ '' was generated by a newer version of pnpm. ''
                        @ ''It is a compatible version but it might get downgraded to version ''
                        @ wanted) prefix]
                else []),
               Inr \<lparr>lockfile = Some migrated, hadConflicts = False\<rparr>))
     \<and> (\<forall>wanted major wantedMajor.
          wantedVersion opts = Some wanted
          \<and> semver_major env v = Inr major
          \<and> semver_major env (comverToSemver env wanted) = Inr wantedMajor
          \<and> major \<noteq> wantedMajor \<longrightarrow>
          priv_read env lockfilePath prefix opts
            = (if ignoreIncompatible opts
               then ([Warn (''Ignoring not compatible lockfile at '' @ lockfilePath) prefix],
                     Inr \<lparr>lockfile = None, hadConflicts = False\<rparr>)
               else ([], Inl (LockfileBreakingChangeError lockfilePath))))"
proof -
  have v: "lockfileSemver env migrated = Inr v"
    using assms(3,4) by (simp add: lockfileSemver_migrate)
  have read: "priv_read env lockfilePath prefix opts
      = check_version env lockfilePath prefix opts (Some migrated) False"
    using assms(1-3) by (simp add: priv_read_def parse_lockfile_def)
  show ?thesis
    unfolding read
    by (simp add: check_version_def v not_compatible_def pure_def throw_def)
qed

theorem read_version_check_witness:
  "priv_read (sample_env [(''/repo/pnpm-lock.yaml'', ''lockfileVersion: !!str 5.10'')] [])
      ''/repo/pnpm-lock.yaml'' ''/repo''
      \<lparr>wantedVersion = None, ignoreIncompatible = False, autofixMergeConflicts = None\<rparr>
     = ([], Inr \<lparr>lockfile = Some lockfile_5_10, hadConflicts = False\<rparr>)
   \<and> priv_read (sample_env [(''/repo/pnpm-lock.yaml'', ''lockfileVersion: !!str 5.10'')] [])
      ''/repo/pnpm-lock.yaml'' ''/repo''
      \<lparr>wantedVersion = Some ''5.4'', ignoreIncompatible = False, autofixMergeConflicts = None\<rparr>
     = ([Warn (''Your pnpm-lock.yaml was generated by a newer version of pnpm. ''
              @ ''It is a compatible version but it might get downgraded to version 5.4'')
           ''/repo''],
        Inr \<lparr>lockfile = Some lockfile_5_10, hadConflicts = False\<rparr>)
   \<and> priv_read (sample_env [(''/repo/pnpm-lock.yaml'', ''lockfileVersion: 6.0'')] [])
      ''/repo/pnpm-lock.yaml'' ''/repo''
      \<lparr>wantedVersion = Some ''5.4'', ignoreIncompatible = False, autofixMergeConflicts = None\<rparr>
     = ([], Inl (LockfileBreakingChangeError ''/repo/pnpm-lock.yaml''))
   \<and> priv_read (sample_env [(''/repo/pnpm-lock.yaml'', ''lockfileVersion: 6.0'')] [])
      ''/repo/pnpm-lock.yaml'' ''/repo''
      \<lparr>wantedVersion = Some ''5.4'', ignoreIncompatible = True, autofixMergeConflicts = None\<rparr>
     = ([Warn ''Ignoring not compatible lockfile at /repo/pnpm-lock.yaml'' ''/repo''],
        Inr \<lparr>lockfile = None, hadConflicts = False\<rparr>)"
proof -
  let ?new = "sample_env [(''/repo/pnpm-lock.yaml'', ''lockfileVersion: !!str 5.10'')] []"
  let ?six = "sample_env [(''/repo/pnpm-lock.yaml'', ''lockfileVersion: 6.0'')] []"
  have new_content: "fs_readFile ?new ''/repo/pnpm-lock.yaml'' = Inr ''lockfileVersion: !!str 5.10''"
    by (simp add: sample_env_def)
  have new_parsed:
    "yaml_load ?new (stripBom ?new ''lockfileVersion: !!str 5.10'') = Inr (Some lockfile_5_10)"
    by (simp add: sample_env_def sample_yaml_load_def)
  have new_migrated: "migrate (Some lockfile_5_10) = Some lockfile_5_10"
    by (simp add: migrate_def optional_get_def get_prop_def lockfile_5_10_def)
  have new_version: "lockfileSemver ?new lockfile_5_10 = Inr ''5.10.0''"
    by (simp add: lockfileSemver_def get_prop_def lockfile_5_10_def sample_env_def
        sample_comverToSemver_def)
  have six_content: "fs_readFile ?six ''/repo/pnpm-lock.yaml'' = Inr ''lockfileVersion: 6.0''"
    by (simp add: sample_env_def)
  have six_parsed:
    "yaml_load ?six (stripBom ?six ''lockfileVersion: 6.0'') = Inr (Some lockfile_6)"
    by (simp add: sample_env_def sample_yaml_load_def)
  have six_migrated: "migrate (Some lockfile_6) = Some lockfile_6"
    by (simp add: migrate_def optional_get_def get_prop_def lockfile_6_def)
  have six_version: "lockfileSemver ?six lockfile_6 = Inr ''6.0.0''"
    by (simp add: lockfileSemver_def get_prop_def lockfile_6_def sample_env_def
        sample_comverToSemver_def)
  have wanted: "sample_comverToSemver ''5.4'' = ''5.4.0''"
    by (simp add: sample_comverToSemver_def)
  have majors: "sample_major ''5.10.0'' = Inr 5" "sample_major ''5.4.0'' = Inr 5"
    "sample_major ''6.0.0'' = Inr 6"
    by (simp_all add: sample_major_def parse_version_def)
  have newer: "sample_gt ''5.10.0'' ''5.4.0'' = Inr True"
    by (simp add: sample_gt_def parse_version_def)
  have fields [simp]:
    "semver_major ?new = sample_major" "semver_gt ?new = sample_gt"
    "comverToSemver ?new = sample_comverToSemver" "WANTED_LOCKFILE ?new = ''pnpm-lock.yaml''"
    "semver_major ?six = sample_major" "comverToSemver ?six = sample_comverToSemver"
    by (simp_all add: sample_env_def)
  show ?thesis
    using
      read_version_check [OF new_content new_parsed new_migrated new_version, of
        "\<lparr>wantedVersion = None, ignoreIncompatible = False, autofixMergeConflicts = None\<rparr>"
        "''/repo''"]
      read_version_check [OF new_content new_parsed new_migrated new_version, of
        "\<lparr>wantedVersion = Some ''5.4'', ignoreIncompatible = False,
          autofixMergeConflicts = None\<rparr>" "''/repo''"]
      read_version_check [OF six_content six_parsed six_migrated six_version, of
        "\<lparr>wantedVersion = Some ''5.4'', ignoreIncompatible = False,
          autofixMergeConflicts = None\<rparr>" "''/repo''"]
      read_version_check [OF six_content six_parsed six_migrated six_version, of
        "\<lparr>wantedVersion = Some ''5.4'', ignoreIncompatible = True,
          autofixMergeConflicts = None\<rparr>" "''/repo''"]
    by (auto simp add: wanted majors newer)
qed

lemma check_version_accepted:
  assumes "check_version env lockfilePath prefix opts doc conflicts = (events, Inr result)"
    and "lockfile result \<noteq> None"
  shows "lockfile result = doc \<and> hadConflicts result = conflicts"
proof (cases doc)
  case None
  with assms show ?thesis
    by (auto simp: check_version_def not_compatible_def throw_def split: if_splits)
next
  case (Some root)
  with assms show ?thesis
    by (auto simp: check_version_def not_compatible_def throw_def pure_def lift_def
          and_then_def split: if_splits sum.splits option.splits prod.splits)
qed

text \<open>
  C2, as the code has it. When the text of a lockfile does not parse: if conflict auto-fix
  is off, or the text does not match the conflict-marker pattern, the read fails with
  \<^verbatim>\<open>BROKEN_LOCKFILE\<close>, the message carrying the path and the parser's message. Otherwise
  the read logs the merge and goes on with the resolver's document and
  \<^verbatim>\<open>hadConflicts = true\<close>; \<open>v\<close> is the semantic version of the document. Without a wanted
  version, and with a wanted version of the same major, the read returns the (migrated)
  document of the resolver with \<^verbatim>\<open>hadConflicts = true\<close>, after the downgrade warning when
  the document's version is the greater. With a wanted version of another major the read
  returns an absent lockfile with \<^verbatim>\<open>hadConflicts = false\<close> (and logs a warning) when
  \<^verbatim>\<open>ignoreIncompatible\<close> is true, and fails with \<open>LockfileBreakingChangeError\<close> when it is
  false. So whenever the read returns a lockfile, it is the resolver's document with
  \<^verbatim>\<open>hadConflicts = true\<close>.
\<close>

theorem read_unparsable:
  assumes "fs_readFile env lockfilePath = Inr content"
    and "yaml_load env (stripBom env content) = Inl message"
  shows
    "(autofixMergeConflicts opts \<noteq> Some True \<or> \<not> isDiff env (stripBom env content) \<longrightarrow>
        priv_read env lockfilePath prefix opts
          = ([], Inl (PnpmError ''BROKEN_LOCKFILE''
                (''The lockfile at '' @ [CHR 0x22] @ lockfilePath @ [CHR 0x22]
                   @ '' is broken: '' @ message))))
     \<and> (\<forall>root migrated v.
          autofixMergeConflicts opts = Some True \<and> isDiff env (stripBom env content)
          \<and> autofix env (stripBom env content) = Inr (Some root)
          \<and> migrate (Some root) = Some migrated
          \<and> lockfileSemver env root = Inr v \<longrightarrow>
          (wantedVersion opts = None \<longrightarrow>
             priv_read env lockfilePath prefix opts
               = ([Info (''Merge conflict detected in '' @ WANTED_LOCKFILE env
                         @ '' and successfully merged'') prefix],
                  Inr \<lparr>lockfile = Some migrated, hadConflicts = True\<rparr>))
          \<and> (\<forall>wanted major newer.
                wantedVersion opts = Some wanted
                \<and> semver_major env v = Inr major
                \<and> semver_major env (comverToSemver env wanted) = Inr major
                \<and> semver_gt env v (comverToSemver env wanted) = Inr newer \<longrightarrow>
                priv_read env lockfilePath prefix opts
                  = (Info (''Merge conflict detected in '' @ WANTED_LOCKFILE env
                            @ '' and successfully merged'') prefix
                       # (if newer
                          then [Warn (''Your '' @ WANTED_LOCKFILE env
                                  @ '' was generated by a newer version of pnpm. ''
                                  @ ''It is a compatible version but it might get downgraded to version ''
                                  @ wanted) prefix]
                          else []),
                     Inr \<lparr>lockfile = Some migrated, hadConflicts = True\<rparr>))
          \<and> (\<forall>wanted major wantedMajor.
                wantedVersion opts = Some wanted
                \<and> semver_major env v = Inr major
                \<and> semver_major env (comverToSemver env wanted) = Inr wantedMajor
                \<and> major \<noteq> wantedMajor \<longrightarrow>
                priv_read env lockfilePath prefix opts
                  = (if ignoreIncompatible opts
                     then ([Info (''Merge conflict detected in '' @ WANTED_LOCKFILE env
                                   @ '' and successfully merged'') prefix,
                            Warn (''Ignoring not compatible lockfile at '' @ lockfilePath) prefix],
                           Inr \<lparr>lockfile = None, hadConflicts = False\<rparr>)
                     else ([Info (''Merge conflict detected in '' @ WANTED_LOCKFILE env
                                   @ '' and successfully merged'') prefix],
                           Inl (LockfileBreakingChangeError lockfilePath)))))
     \<and> (\<forall>doc result.
          autofixMergeConflicts opts = Some True \<and> isDiff env (stripBom env content)
          \<and> autofix env (stripBom env content) = Inr doc
          \<and> snd (priv_read env lockfilePath prefix opts) = Inr result
          \<and> lockfile result \<noteq> None \<longrightarrow>
          lockfile result = migrate doc \<and> hadConflicts result)"
proof -
  let ?raw = "stripBom env content"
  let ?checked = "check_version env lockfilePath prefix opts"
  let ?merged = "Info (''Merge conflict detected in '' @ WANTED_LOCKFILE env
    @ '' and successfully merged'') prefix"
  have broken: "priv_read env lockfilePath prefix opts
      = ([], Inl (PnpmError ''BROKEN_LOCKFILE''
            (''The lockfile at '' @ [CHR 0x22] @ lockfilePath @ [CHR 0x22]
               @ '' is broken: '' @ message)))"
    if "autofixMergeConflicts opts \<noteq> Some True \<or> \<not> isDiff env ?raw"
    using that assms by (auto simp: priv_read_def parse_lockfile_def throw_def)
  have resolved: "priv_read env lockfilePath prefix opts
      = (?merged # fst (?checked (migrate doc) True), snd (?checked (migrate doc) True))"
    if "autofixMergeConflicts opts = Some True \<and> isDiff env ?raw \<and> autofix env ?raw = Inr doc"
    for doc
    using that assms by (simp add: priv_read_def parse_lockfile_def and_then_events)
  have outcomes:
    "(wantedVersion opts = None \<longrightarrow>
        priv_read env lockfilePath prefix opts
          = ([?merged], Inr \<lparr>lockfile = Some migrated, hadConflicts = True\<rparr>))
     \<and> (\<forall>wanted major newer.
          wantedVersion opts = Some wanted
          \<and> semver_major env v = Inr major
          \<and> semver_major env (comverToSemver env wanted) = Inr major
          \<and> semver_gt env v (comverToSemver env wanted) = Inr newer \<longrightarrow>
          priv_read env lockfilePath prefix opts
            = (?merged
                 # (if newer
                    then [Warn (''Your '' @ WANTED_LOCKFILE env
                            @ '' was generated by a newer version of pnpm. ''
                            @ ''It is a compatible version but it might get downgraded to version ''
                            @ wanted) prefix]
                    else []),
               Inr \<lparr>lockfile = Some migrated, hadConflicts = True\<rparr>))
     \<and> (\<forall>wanted major wantedMajor.
          wantedVersion opts = Some wanted
          \<and> semver_major env v = Inr major
          \<and> semver_major env (comverToSemver env wanted) = Inr wantedMajor
          \<and> major \<noteq> wantedMajor \<longrightarrow>
          priv_read env lockfilePath prefix opts
            = (if ignoreIncompatible opts
               then ([?merged,
                      Warn (''Ignoring not compatible lockfile at '' @ lockfilePath) prefix],
                     Inr \<lparr>lockfile = None, hadConflicts = False\<rparr>)
               else ([?merged], Inl (LockfileBreakingChangeError lockfilePath))))"
    if "autofixMergeConflicts opts = Some True \<and> isDiff env ?raw
        \<and> autofix env ?raw = Inr (Some root)
        \<and> migrate (Some root) = Some migrated
        \<and> lockfileSemver env root = Inr v"
    for root migrated v
  proof -
    from that have v: "lockfileSemver env migrated = Inr v"
      using lockfileSemver_migrate [of root migrated env] by simp
    from that have "priv_read env lockfilePath prefix opts
        = (?merged # fst (?checked (Some migrated) True), snd (?checked (Some migrated) True))"
      using resolved [of "Some root"] by simp
    then show ?thesis
      by (simp add: check_version_def v not_compatible_def pure_def throw_def)
  qed
  have accepted: "lockfile result = migrate doc \<and> hadConflicts result"
    if "autofixMergeConflicts opts = Some True \<and> isDiff env ?raw \<and> autofix env ?raw = Inr doc
        \<and> snd (priv_read env lockfilePath prefix opts) = Inr result \<and> lockfile result \<noteq> None"
    for doc result
  proof -
    from that have "priv_read env lockfilePath prefix opts
        = (?merged # fst (?checked (migrate doc) True), snd (?checked (migrate doc) True))"
      by (intro resolved) simp
    with that have "snd (?checked (migrate doc) True) = Inr result"
      by simp
    then have "?checked (migrate doc) True = (fst (?checked (migrate doc) True), Inr result)"
      by (simp add: prod_eq_iff)
    moreover from that have "lockfile result \<noteq> None"
      by simp
    ultimately show ?thesis
      using check_version_accepted by blast
  qed
  show ?thesis
  proof (intro conjI allI impI)
    show "priv_read env lockfilePath prefix opts
      = ([], Inl (PnpmError ''BROKEN_LOCKFILE''
            (''The lockfile at '' @ [CHR 0x22] @ lockfilePath @ [CHR 0x22]
               @ '' is broken: '' @ message)))"
      if "autofixMergeConflicts opts \<noteq> Some True \<or> \<not> isDiff env ?raw"
      using that by (rule broken)
  qed (use outcomes accepted in \<open>blast+\<close>)
qed

lemma sample_conflict:
  "fs_readFile (sample_env [(''/repo/pnpm-lock.yaml'', conflict_text)] []) ''/repo/pnpm-lock.yaml''
     = Inr conflict_text"
  "yaml_load (sample_env files branches) (stripBom (sample_env files branches) conflict_text)
     = Inl ''end of the stream or a document separator is expected''"
  "isDiff (sample_env files branches) (stripBom (sample_env files branches) conflict_text)"
  "autofix (sample_env files branches) (stripBom (sample_env files branches) conflict_text)
     = Inr (Some lockfile_6)"
  by (simp_all add: sample_env_def sample_yaml_load_def conflict_text_def)

lemma sample_conflict_plain:
  "yaml_load (sample_env files branches) conflict_text
     = Inl ''end of the stream or a document separator is expected''"
  "isDiff (sample_env files branches) conflict_text"
  "autofix (sample_env files branches) conflict_text = Inr (Some lockfile_6)"
  by (simp_all add: sample_env_def sample_yaml_load_def conflict_text_def)

lemma sample_lockfile_6:
  "migrate (Some lockfile_6) = Some lockfile_6"
  "lockfileSemver (sample_env files branches) lockfile_6 = Inr ''6.0.0''"
  "sample_major ''6.0.0'' = Inr 6"
  "sample_comverToSemver ''5.4'' = ''5.4.0''"
  "sample_major ''5.4.0'' = Inr 5"
  by (simp_all add: migrate_def optional_get_def get_prop_def lockfile_6_def lockfileSemver_def
      sample_env_def sample_comverToSemver_def sample_major_def parse_version_def)

lemma sample_env_fields [simp]:
  "WANTED_LOCKFILE (sample_env files branches) = ''pnpm-lock.yaml''"
  "path_join (sample_env files branches) dir file = dir @ ''/'' @ file"
  "stripBom (sample_env files branches) text = text"
  "comverToSemver (sample_env files branches) = sample_comverToSemver"
  "semver_major (sample_env files branches) = sample_major"
  "semver_gt (sample_env files branches) = sample_gt"
  "getGitBranchLockfileNames (sample_env files branches) dir = Inr branches"
  "getWantedLockfileName (sample_env files branches) opts = Inr ''pnpm-lock.yaml''"
  by (simp_all add: sample_env_def)

theorem read_unparsable_witness:
  "priv_read (sample_env [(''/repo/pnpm-lock.yaml'', conflict_text)] [])
      ''/repo/pnpm-lock.yaml'' ''/repo''
      \<lparr>wantedVersion = None, ignoreIncompatible = False, autofixMergeConflicts = Some True\<rparr>
     = ([Info ''Merge conflict detected in pnpm-lock.yaml and successfully merged'' ''/repo''],
        Inr \<lparr>lockfile = Some lockfile_6, hadConflicts = True\<rparr>)
   \<and> priv_read (sample_env [(''/repo/pnpm-lock.yaml'', conflict_text)] [])
      ''/repo/pnpm-lock.yaml'' ''/repo''
      \<lparr>wantedVersion = Some ''6'', ignoreIncompatible = False,
        autofixMergeConflicts = Some True\<rparr>
     = ([Info ''Merge conflict detected in pnpm-lock.yaml and successfully merged'' ''/repo''],
        Inr \<lparr>lockfile = Some lockfile_6, hadConflicts = True\<rparr>)
   \<and> priv_read (sample_env [(''/repo/pnpm-lock.yaml'', conflict_text)] [])
      ''/repo/pnpm-lock.yaml'' ''/repo''
      \<lparr>wantedVersion = Some ''5.4'', ignoreIncompatible = True,
        autofixMergeConflicts = Some True\<rparr>
     = ([Info ''Merge conflict detected in pnpm-lock.yaml and successfully merged'' ''/repo'',
         Warn ''Ignoring not compatible lockfile at /repo/pnpm-lock.yaml'' ''/repo''],
        Inr \<lparr>lockfile = None, hadConflicts = False\<rparr>)
   \<and> priv_read (sample_env [(''/repo/pnpm-lock.yaml'', conflict_text)] [])
      ''/repo/pnpm-lock.yaml'' ''/repo''
      \<lparr>wantedVersion = None, ignoreIncompatible = False, autofixMergeConflicts = None\<rparr>
     = ([], Inl (PnpmError ''BROKEN_LOCKFILE''
          (''The lockfile at '' @ [CHR 0x22] @ ''/repo/pnpm-lock.yaml'' @ [CHR 0x22]
             @ '' is broken: end of the stream or a document separator is expected'')))"
proof -
  let ?env = "sample_env [(''/repo/pnpm-lock.yaml'', conflict_text)] []"
  let ?fix = "\<lambda>wanted ignore. \<lparr>wantedVersion = wanted, ignoreIncompatible = ignore,
    autofixMergeConflicts = Some True\<rparr>"
  have on: "autofixMergeConflicts (?fix wanted ignore) = Some True
      \<and> isDiff ?env (stripBom ?env conflict_text)
      \<and> autofix ?env (stripBom ?env conflict_text) = Inr (Some lockfile_6)
      \<and> migrate (Some lockfile_6) = Some lockfile_6
      \<and> lockfileSemver ?env lockfile_6 = Inr ''6.0.0''" for wanted ignore
    by (simp add: sample_conflict_plain sample_lockfile_6)
  have six: "sample_comverToSemver ''6'' = ''6.0.0''" "sample_gt ''6.0.0'' ''6.0.0'' = Inr False"
    by (simp_all add: sample_comverToSemver_def sample_gt_def parse_version_def)
  note resolved = read_unparsable [OF sample_conflict(1) sample_conflict(2), THEN conjunct2,
      THEN conjunct1, rule_format, OF on]
  have "priv_read ?env ''/repo/pnpm-lock.yaml'' ''/repo'' (?fix None False)
      = ([Info ''Merge conflict detected in pnpm-lock.yaml and successfully merged'' ''/repo''],
         Inr \<lparr>lockfile = Some lockfile_6, hadConflicts = True\<rparr>)"
    using resolved [of None False "''/repo''", THEN conjunct1] by simp
  moreover have "priv_read ?env ''/repo/pnpm-lock.yaml'' ''/repo'' (?fix (Some ''6'') False)
      = ([Info ''Merge conflict detected in pnpm-lock.yaml and successfully merged'' ''/repo''],
         Inr \<lparr>lockfile = Some lockfile_6, hadConflicts = True\<rparr>)"
    using resolved [of "Some ''6''" False "''/repo''", THEN conjunct2, THEN conjunct1,
        rule_format, of "''6''" 6 False]
    by (simp add: six sample_lockfile_6)
  moreover have "priv_read ?env ''/repo/pnpm-lock.yaml'' ''/repo'' (?fix (Some ''5.4'') True)
      = ([Info ''Merge conflict detected in pnpm-lock.yaml and successfully merged'' ''/repo'',
          Warn ''Ignoring not compatible lockfile at /repo/pnpm-lock.yaml'' ''/repo''],
         Inr \<lparr>lockfile = None, hadConflicts = False\<rparr>)"
    using resolved [of "Some ''5.4''" True "''/repo''", THEN conjunct2, THEN conjunct2,
        rule_format, of "''5.4''" 6 5]
    by (simp add: sample_lockfile_6)
  moreover have "priv_read ?env ''/repo/pnpm-lock.yaml'' ''/repo''
      \<lparr>wantedVersion = None, ignoreIncompatible = False, autofixMergeConflicts = None\<rparr>
      = ([], Inl (PnpmError ''BROKEN_LOCKFILE''
          (''The lockfile at '' @ [CHR 0x22] @ ''/repo/pnpm-lock.yaml'' @ [CHR 0x22]
             @ '' is broken: end of the stream or a document separator is expected'')))"
    using read_unparsable [OF sample_conflict(1) sample_conflict(2), THEN conjunct1, of
        "\<lparr>wantedVersion = None, ignoreIncompatible = False, autofixMergeConflicts = None\<rparr>"
        "''/repo''"]
    by simp
  ultimately show ?thesis
    by simp
qed

text \<open>
  The claim C2 as it was stated fails: with auto-fix on and a text with conflict markers
  that the resolver resolves to a document of version 6, a read that wants version 5.4 does
  not return the resolver's document with \<^verbatim>\<open>hadConflicts = true\<close>: it returns an absent
  lockfile with \<^verbatim>\<open>hadConflicts = false\<close> when \<^verbatim>\<open>ignoreIncompatible\<close> is true, and fails
  with \<open>LockfileBreakingChangeError\<close> when it is false.
\<close>

theorem read_conflict_incompatible:
  "yaml_load (sample_env [(''/repo/pnpm-lock.yaml'', conflict_text)] []) conflict_text
     = Inl ''end of the stream or a document separator is expected''
   \<and> isDiff (sample_env [(''/repo/pnpm-lock.yaml'', conflict_text)] []) conflict_text
   \<and> autofix (sample_env [(''/repo/pnpm-lock.yaml'', conflict_text)] []) conflict_text
     = Inr (Some lockfile_6)
   \<and> priv_read (sample_env [(''/repo/pnpm-lock.yaml'', conflict_text)] [])
      ''/repo/pnpm-lock.yaml'' ''/repo''
      \<lparr>wantedVersion = Some ''5.4'', ignoreIncompatible = True,
        autofixMergeConflicts = Some True\<rparr>
     = ([Info ''Merge conflict detected in pnpm-lock.yaml and successfully merged'' ''/repo'',
         Warn ''Ignoring not compatible lockfile at /repo/pnpm-lock.yaml'' ''/repo''],
        Inr \<lparr>lockfile = None, hadConflicts = False\<rparr>)
   \<and> priv_read (sample_env [(''/repo/pnpm-lock.yaml'', conflict_text)] [])
      ''/repo/pnpm-lock.yaml'' ''/repo''
      \<lparr>wantedVersion = Some ''5.4'', ignoreIncompatible = False,
        autofixMergeConflicts = Some True\<rparr>
     = ([Info ''Merge conflict detected in pnpm-lock.yaml and successfully merged'' ''/repo''],
        Inl (LockfileBreakingChangeError ''/repo/pnpm-lock.yaml''))"
  by (simp add: sample_conflict(1) sample_conflict_plain priv_read_def parse_lockfile_def
      and_then_events sample_lockfile_6 check_version_def not_compatible_def throw_def)

section \<open>Branch lockfiles are merged into the base lockfile\<close>

lemma later_wins_Nil [simp]: "later_wins [] base_packages = base_packages"
  by (simp add: later_wins_def)

lemma later_wins_snoc:
  "later_wins (branch_packages @ [packages]) base_packages
     = later_wins branch_packages base_packages ++ spread packages"
  by (auto simp: later_wins_def map_add_def fun_eq_iff split: option.splits)

lemma packages_of_snoc:
  "packages_of (results @ [result]) =
     (if truthy (optional_get (lockfile result) ''packages'')
      then packages_of results @ [optional_get (lockfile result) ''packages'']
      else packages_of results)"
  by (simp add: packages_of_def)

lemma fold_merge_packages:
  "fold merge_packages (map lockfile results) root =
     (if packages_of results = [] then root
      else root(''packages'' \<mapsto>
             Obj (later_wins (packages_of results) (spread (get_prop root ''packages'')))))"
proof (induction results rule: rev_induct)
  case Nil
  then show ?case by (simp add: packages_of_def)
next
  case (snoc result results)
  show ?case
  proof (cases "truthy (optional_get (lockfile result) ''packages'')")
    case False
    with snoc show ?thesis
      by (simp add: packages_of_snoc merge_packages_def)
  next
    case True
    let ?base = "spread (get_prop root ''packages'')"
    let ?packages = "optional_get (lockfile result) ''packages''"
    have step: "fold merge_packages (map lockfile (results @ [result])) root
        = merge_packages (lockfile result) (fold merge_packages (map lockfile results) root)"
      by simp
    have later: "packages_of (results @ [result]) = packages_of results @ [?packages]"
      using True by (simp add: packages_of_snoc)
    show ?thesis
    proof (cases "packages_of results = []")
      case True
      then have "fold merge_packages (map lockfile results) root = root"
        using snoc by simp
      then have "fold merge_packages (map lockfile (results @ [result])) root
          = root(''packages'' \<mapsto> Obj (?base ++ spread ?packages))"
        using \<open>truthy ?packages\<close> by (simp only: step merge_packages_def if_True)
      moreover have "later_wins (packages_of (results @ [result])) ?base
          = ?base ++ spread ?packages"
        using True by (simp only: later later_wins_snoc later_wins_Nil)
      ultimately show ?thesis
        by (simp only: later) simp
    next
      case False
      let ?merged = "later_wins (packages_of results) ?base"
      have "fold merge_packages (map lockfile results) root = root(''packages'' \<mapsto> Obj ?merged)"
        by (simp only: snoc False if_False)
      then have "fold merge_packages (map lockfile (results @ [result])) root
          = root(''packages'' \<mapsto> Obj (?merged ++ spread ?packages))"
        using \<open>truthy ?packages\<close> by (simp add: merge_packages_def get_prop_def)
      then show ?thesis
        by (simp only: later later_wins_snoc) simp
    qed
  qed
qed

text \<open>
  C5. An absent base lockfile passes through, and no branch file is read for it. When the
  branch lockfiles are read (the results in enumeration order), the merged lockfile is the
  base lockfile with, if some branch lockfile has \<^verbatim>\<open>packages\<close>, its own \<^verbatim>\<open>packages\<close>
  replaced by the merge in which later branch files win (\<open>later_wins\<close>); all its other
  fields, \<^verbatim>\<open>importers\<close> among them, are those of the base lockfile.
\<close>

theorem merge_branch_packages:
  "priv_mergeGitBranchLockfiles env None lockfileDir prefix opts = ([], Inr None)
   \<and> (priv_readGitBranchLockfiles env lockfileDir prefix opts = (events, Inr results) \<longrightarrow>
        priv_mergeGitBranchLockfiles env (Some root) lockfileDir prefix opts
          = (events,
             Inr (Some (if packages_of results = [] then root
                        else root(''packages'' \<mapsto>
                               Obj (later_wins (packages_of results)
                                      (spread (get_prop root ''packages'')))))))
        \<and> (\<forall>k. k \<noteq> ''packages'' \<longrightarrow>
              (if packages_of results = [] then root
               else root(''packages'' \<mapsto>
                      Obj (later_wins (packages_of results)
                             (spread (get_prop root ''packages''))))) k
              = root k))"
  by (simp add: priv_mergeGitBranchLockfiles_def and_then_events pure_def fold_merge_packages)

lemma sample_versions:
  "sample_comverToSemver ''5.4'' = ''5.4.0''"
  "sample_major ''5.4.0'' = Inr 5"
  "sample_gt ''5.4.0'' ''5.4.0'' = Inr False"
  by (simp_all add: sample_comverToSemver_def sample_major_def sample_gt_def parse_version_def)

lemma sample_branch_lockfiles:
  "migrate (Some branch_b_lockfile) = Some branch_b_lockfile"
  "migrate (Some branch_a_lockfile) = Some branch_a_lockfile"
  "lockfileSemver (sample_env files branches) branch_b_lockfile = Inr ''5.4.0''"
  "lockfileSemver (sample_env files branches) branch_a_lockfile = Inr ''5.4.0''"
  "optional_get (Some branch_b_lockfile) ''packages'' = Obj [''B'' \<mapsto> Str ''v1'']"
  "optional_get (Some branch_a_lockfile) ''packages'' = Obj [''A'' \<mapsto> Str ''v2'']"
  "get_prop lockfile_5_4 ''packages'' = Obj [''A'' \<mapsto> Str ''v1'']"
  by (simp_all add: migrate_def optional_get_def get_prop_def lockfileSemver_def
      branch_a_lockfile_def branch_b_lockfile_def lockfile_5_4_def sample_versions)

lemma priv_read_parsed:
  "fs_readFile env lockfilePath = Inr content \<Longrightarrow>
   yaml_load env (stripBom env content) = Inr doc \<Longrightarrow>
   priv_read env lockfilePath prefix opts
     = check_version env lockfilePath prefix opts (migrate doc) False"
  by (simp add: priv_read_def parse_lockfile_def)

lemma sample_read_branches:
  "priv_readGitBranchLockfiles
     (sample_env
        [(''/repo/pnpm-lock.branch-b.yaml'', ''{lockfileVersion: 5.4, packages: {B: v1}}''),
         (''/repo/pnpm-lock.branch-a.yaml'', ''{lockfileVersion: 5.4, packages: {A: v2}}'')]
        [''pnpm-lock.branch-b.yaml'', ''pnpm-lock.branch-a.yaml''])
     ''/repo'' ''/repo''
     \<lparr>wantedVersion = Some ''5.4'', ignoreIncompatible = False, autofixMergeConflicts = None\<rparr>
   = ([], Inr [\<lparr>lockfile = Some branch_b_lockfile, hadConflicts = False\<rparr>,
               \<lparr>lockfile = Some branch_a_lockfile, hadConflicts = False\<rparr>])"
proof -
  let ?env = "sample_env
        [(''/repo/pnpm-lock.branch-b.yaml'', ''{lockfileVersion: 5.4, packages: {B: v1}}''),
         (''/repo/pnpm-lock.branch-a.yaml'', ''{lockfileVersion: 5.4, packages: {A: v2}}'')]
        [''pnpm-lock.branch-b.yaml'', ''pnpm-lock.branch-a.yaml'']"
  let ?opts = "\<lparr>wantedVersion = Some ''5.4'', ignoreIncompatible = False,
    autofixMergeConflicts = None\<rparr>"
  have files:
    "fs_readFile ?env ''/repo/pnpm-lock.branch-b.yaml''
       = Inr ''{lockfileVersion: 5.4, packages: {B: v1}}''"
    "fs_readFile ?env ''/repo/pnpm-lock.branch-a.yaml''
       = Inr ''{lockfileVersion: 5.4, packages: {A: v2}}''"
    "yaml_load ?env ''{lockfileVersion: 5.4, packages: {B: v1}}'' = Inr (Some branch_b_lockfile)"
    "yaml_load ?env ''{lockfileVersion: 5.4, packages: {A: v2}}'' = Inr (Some branch_a_lockfile)"
    by (simp_all add: sample_env_def sample_yaml_load_def)
  have checked:
    "check_version ?env ''/repo/pnpm-lock.branch-b.yaml'' ''/repo'' ?opts
       (Some branch_b_lockfile) False
       = ([], Inr \<lparr>lockfile = Some branch_b_lockfile, hadConflicts = False\<rparr>)"
    "check_version ?env ''/repo/pnpm-lock.branch-a.yaml'' ''/repo'' ?opts
       (Some branch_a_lockfile) False
       = ([], Inr \<lparr>lockfile = Some branch_a_lockfile, hadConflicts = False\<rparr>)"
    by (simp_all add: check_version_def sample_branch_lockfiles sample_versions)
  have b: "priv_read ?env ''/repo/pnpm-lock.branch-b.yaml'' ''/repo'' ?opts
      = ([], Inr \<lparr>lockfile = Some branch_b_lockfile, hadConflicts = False\<rparr>)"
    using priv_read_parsed [of ?env, OF files(1)]
    by (simp add: files sample_branch_lockfiles checked)
  have a: "priv_read ?env ''/repo/pnpm-lock.branch-a.yaml'' ''/repo'' ?opts
      = ([], Inr \<lparr>lockfile = Some branch_a_lockfile, hadConflicts = False\<rparr>)"
    using priv_read_parsed [of ?env, OF files(2)]
    by (simp add: files sample_branch_lockfiles checked)
  show ?thesis
    by (simp add: priv_readGitBranchLockfiles_def promise_all_def a b)
qed

theorem merge_branch_packages_witness:
  "priv_mergeGitBranchLockfiles
     (sample_env
        [(''/repo/pnpm-lock.branch-b.yaml'', ''{lockfileVersion: 5.4, packages: {B: v1}}''),
         (''/repo/pnpm-lock.branch-a.yaml'', ''{lockfileVersion: 5.4, packages: {A: v2}}'')]
        [''pnpm-lock.branch-b.yaml'', ''pnpm-lock.branch-a.yaml''])
     (Some lockfile_5_4) ''/repo'' ''/repo''
     \<lparr>wantedVersion = Some ''5.4'', ignoreIncompatible = False, autofixMergeConflicts = None\<rparr>
   = ([], Inr (Some (lockfile_5_4(''packages'' \<mapsto>
                       Obj [''A'' \<mapsto> Str ''v2'', ''B'' \<mapsto> Str ''v1'']))))
   \<and> (lockfile_5_4(''packages'' \<mapsto> Obj [''A'' \<mapsto> Str ''v2'', ''B'' \<mapsto> Str ''v1'']))
        ''importers''
     = lockfile_5_4 ''importers''"
proof -
  have "later_wins [Obj [''B'' \<mapsto> Str ''v1''], Obj [''A'' \<mapsto> Str ''v2'']]
      [''A'' \<mapsto> Str ''v1''] = [''A'' \<mapsto> Str ''v2'', ''B'' \<mapsto> Str ''v1'']"
    by (auto simp: later_wins_def fun_eq_iff)
  then show ?thesis
    using merge_branch_packages [of _ _ _ _ "[]" _ lockfile_5_4, THEN conjunct2, THEN mp,
        OF sample_read_branches, THEN conjunct1]
    by (simp add: packages_of_def sample_branch_lockfiles)
qed

section \<open>Branch lockfiles are read without conflict auto-fix\<close>










section \<open>The import command reads one foreign lock file\<close>

text \<open>
  C3. One extraction runs per invocation. When \<^verbatim>\<open>yarn.lock\<close> exists the versions come
  from the yarn lock file, whether or not an npm lock file exists too, and the reader of
  npm lock files is not consulted: the result is the same with any other one. Otherwise,
  when \<^verbatim>\<open>package-lock.json\<close> or \<^verbatim>\<open>npm-shrinkwrap.json\<close> exists, the versions come from
  the npm lock file, and neither the reader nor the parser of yarn lock files is consulted.
  When none of the three files exists the command fails with \<^verbatim>\<open>LOCKFILE_NOT_FOUND\<close>.
\<close>

theorem handler_one_extraction:
  "(path_exists env (path_join env dir ''yarn.lock'') \<longrightarrow>
      handler_preferredVersions env dir
        = (case readYarnLockFile env dir of
             Inl e \<Rightarrow> Inl e
           | Inr yarnPackgeLockFile \<Rightarrow>
               (case getAllVersionsFromYarnLockFile yarnPackgeLockFile Map.empty of
                  Inl e \<Rightarrow> Inl e
                | Inr versions \<Rightarrow> Inr (getPreferredVersions versions)))
      \<and> handler_preferredVersions (env\<lparr>loadJsonFile := other_loadJsonFile\<rparr>) dir
          = handler_preferredVersions env dir)
   \<and> (\<not> path_exists env (path_join env dir ''yarn.lock'')
        \<and> (path_exists env (path_join env dir ''package-lock.json'')
             \<or> path_exists env (path_join env dir ''npm-shrinkwrap.json'')) \<longrightarrow>
      handler_preferredVersions env dir
        = (case readNpmLockfile env dir of
             Inl e \<Rightarrow> Inl e
           | Inr npmPackageLock \<Rightarrow>
               (case getAllVersionsByPackageNames npmPackageLock Map.empty of
                  Inl e \<Rightarrow> Inl e
                | Inr versions \<Rightarrow> Inr (getPreferredVersions versions)))
      \<and> handler_preferredVersions
            (env\<lparr>gfs_readFile := other_readFile, parseYarnLock := other_parseYarnLock\<rparr>) dir
          = handler_preferredVersions env dir)
   \<and> (\<not> path_exists env (path_join env dir ''yarn.lock'')
        \<and> \<not> path_exists env (path_join env dir ''package-lock.json'')
        \<and> \<not> path_exists env (path_join env dir ''npm-shrinkwrap.json'') \<longrightarrow>
      handler_preferredVersions env dir
        = Inl (PnpmError ''LOCKFILE_NOT_FOUND'' ''No lockfile found''))"
  by (auto simp: handler_preferredVersions_def readYarnLockFile_def readNpmLockfile_def
      split: sum.splits)

lemma sample_import_fields [simp]:
  "path_exists (sample_env files branches) path = (map_of files path \<noteq> None)"
  "gfs_readFile (sample_env files branches) path =
     (case map_of files path of
        None \<Rightarrow> Inl (Thrown (Some ''ENOENT'') ''no such file or directory'')
      | Some text \<Rightarrow> Inr text)"
  "parseYarnLock (sample_env files branches) ''lodash@^4.17.0: version 4.17.21''
     = Inr (''success'',
         [(''lodash@^4.17.0'',
           \<lparr>yarn_version = ''4.17.21'', resolved = [], integrity = [],
            yarn_dependencies = None\<rparr>)])"
  "parseYarnLock (sample_env files branches) ''constructor@^1.0.0: version 1.0.0''
     = Inr (''success'',
         [(''constructor@^1.0.0'',
           \<lparr>yarn_version = ''1.0.0'', resolved = [], integrity = [],
            yarn_dependencies = None\<rparr>)])"
  by (simp_all add: sample_env_def)

lemma sample_loadJsonFile:
  "loadJsonFile (sample_env files branches) path =
     (case map_of files path of
        None \<Rightarrow> Inl (Thrown (Some ''ENOENT'') ''no such file or directory'')
      | Some text \<Rightarrow>
          if text = ''{dependencies: {lodash: ...}}''
          then Inr (LockedPackage ''1.0.0''
                 (Some [(''lodash'', LockedPackage ''4.17.0''
                    (Some [(''debug'', LockedPackage ''1.0.0'' None)]))]))
          else if text = ''{dependencies: {constructor: {version: 1.0.0}}}''
          then Inr (LockedPackage ''0.1.0''
                 (Some [(''constructor'', LockedPackage ''1.0.0'' None)]))
          else Inl (Thrown None ''Unexpected token''))"
  by (simp add: sample_env_def)

lemma sample_yarn_walk:
  "getAllVersionsFromYarnLockFile
     [(''lodash@^4.17.0'',
       \<lparr>yarn_version = ''4.17.21'', resolved = [], integrity = [], yarn_dependencies = None\<rparr>)]
     Map.empty = Inr [''lodash'' \<mapsto> {''4.17.21''}]"
  by (simp add: lastIndexOf_def substring_def add_version_def Object_prototype_def)

lemma sample_npm_walk:
  "getAllVersionsByPackageNames
     (LockedPackage ''1.0.0''
        (Some [(''lodash'', LockedPackage ''4.17.0''
           (Some [(''debug'', LockedPackage ''1.0.0'' None)]))]))
     Map.empty = Inr [''lodash'' \<mapsto> {''4.17.0''}, ''debug'' \<mapsto> {''1.0.0''}]"
  by (simp add: add_version_def Object_prototype_def)

lemma sample_preferred:
  "getPreferredVersions [''lodash'' \<mapsto> {''4.17.21''}]
     = [''lodash'' \<mapsto> [''4.17.21'' \<mapsto> ''version'']]"
  "getPreferredVersions [''lodash'' \<mapsto> {''4.17.0''}, ''debug'' \<mapsto> {''1.0.0''}]
     = [''lodash'' \<mapsto> [''4.17.0'' \<mapsto> ''version''],
        ''debug'' \<mapsto> [''1.0.0'' \<mapsto> ''version'']]"
  by (auto simp: getPreferredVersions_def fun_eq_iff)

theorem handler_one_extraction_witness:
  "handler_preferredVersions
     (sample_env [(''/repo/yarn.lock'', ''lodash@^4.17.0: version 4.17.21''),
                  (''/repo/package-lock.json'', ''{dependencies: {lodash: ...}}'')] [])
     ''/repo''
     = Inr [''lodash'' \<mapsto> [''4.17.21'' \<mapsto> ''version'']]
   \<and> handler_preferredVersions
       (sample_env [(''/repo/package-lock.json'', ''{dependencies: {lodash: ...}}'')] [])
       ''/repo''
     = Inr [''lodash'' \<mapsto> [''4.17.0'' \<mapsto> ''version''],
            ''debug'' \<mapsto> [''1.0.0'' \<mapsto> ''version'']]
   \<and> handler_preferredVersions (sample_env [] []) ''/repo''
     = Inl (PnpmError ''LOCKFILE_NOT_FOUND'' ''No lockfile found'')"
proof -
  let ?both = "sample_env [(''/repo/yarn.lock'', ''lodash@^4.17.0: version 4.17.21''),
    (''/repo/package-lock.json'', ''{dependencies: {lodash: ...}}'')] []"
  let ?npm = "sample_env [(''/repo/package-lock.json'', ''{dependencies: {lodash: ...}}'')] []"
  have yarn: "readYarnLockFile ?both ''/repo''
      = Inr [(''lodash@^4.17.0'',
              \<lparr>yarn_version = ''4.17.21'', resolved = [], integrity = [],
               yarn_dependencies = None\<rparr>)]"
    by (simp add: readYarnLockFile_def)
  have npm: "readNpmLockfile ?npm ''/repo''
      = Inr (LockedPackage ''1.0.0''
          (Some [(''lodash'', LockedPackage ''4.17.0''
             (Some [(''debug'', LockedPackage ''1.0.0'' None)]))]))"
    by (simp add: readNpmLockfile_def sample_loadJsonFile)
  have exists_both: "path_exists ?both (path_join ?both ''/repo'' ''yarn.lock'')"
    by simp
  have exists_npm: "\<not> path_exists ?npm (path_join ?npm ''/repo'' ''yarn.lock'')
      \<and> (path_exists ?npm (path_join ?npm ''/repo'' ''package-lock.json'')
           \<or> path_exists ?npm (path_join ?npm ''/repo'' ''npm-shrinkwrap.json''))"
    by simp
  have exists_none:
    "\<not> path_exists (sample_env [] []) (path_join (sample_env [] []) ''/repo'' ''yarn.lock'')
     \<and> \<not> path_exists (sample_env [] [])
           (path_join (sample_env [] []) ''/repo'' ''package-lock.json'')
     \<and> \<not> path_exists (sample_env [] [])
           (path_join (sample_env [] []) ''/repo'' ''npm-shrinkwrap.json'')"
    by simp
  have "handler_preferredVersions ?both ''/repo''
      = Inr [''lodash'' \<mapsto> [''4.17.21'' \<mapsto> ''version'']]"
    using handler_one_extraction [of ?both "''/repo''", THEN conjunct1, THEN mp,
        OF exists_both, THEN conjunct1]
    by (simp only: yarn sample_yarn_walk sample_preferred sum.case)
  moreover have "handler_preferredVersions ?npm ''/repo''
      = Inr [''lodash'' \<mapsto> [''4.17.0'' \<mapsto> ''version''],
             ''debug'' \<mapsto> [''1.0.0'' \<mapsto> ''version'']]"
    using handler_one_extraction [of ?npm "''/repo''", THEN conjunct2, THEN conjunct1, THEN mp,
        OF exists_npm, THEN conjunct1]
    by (simp only: npm sample_npm_walk sample_preferred sum.case)
  moreover have "handler_preferredVersions (sample_env [] []) ''/repo''
      = Inl (PnpmError ''LOCKFILE_NOT_FOUND'' ''No lockfile found'')"
    using handler_one_extraction [of "sample_env [] []" "''/repo''", THEN conjunct2,
        THEN conjunct2, THEN mp, OF exists_none] .
  ultimately show ?thesis
    by simp
qed

section \<open>Package names that a plain object inherits\<close>

text \<open>
  C4 at a failing input. The lock tree
  \<^verbatim>\<open>{dependencies: {constructor: {version: "1.0.0"}}}\<close> names a package
  \<^verbatim>\<open>constructor\<close>. The walk starts from the plain object \<^verbatim>\<open>{}\<close>, reads its inherited
  member \<^verbatim>\<open>constructor\<close>, creates no set for the name and calls \<^verbatim>\<open>add\<close> on the member: it
  throws a \<^verbatim>\<open>TypeError\<close> and records no version, and so does the import command in a
  directory whose \<^verbatim>\<open>package-lock.json\<close> holds this tree.
\<close>

theorem npm_walk_inherited_name:
  "getAllVersionsByPackageNames
     (LockedPackage ''0.1.0'' (Some [(''constructor'', LockedPackage ''1.0.0'' None)])) Map.empty
   = Inl (TypeError ''versionsByPackageNames[packageName].add is not a function'')
   \<and> handler_preferredVersions
       (sample_env
          [(''/repo/package-lock.json'', ''{dependencies: {constructor: {version: 1.0.0}}}'')] [])
       ''/repo''
     = Inl (TypeError ''versionsByPackageNames[packageName].add is not a function'')"
  by (simp add: handler_preferredVersions_def readNpmLockfile_def sample_loadJsonFile
      add_version_def Object_prototype_def)

text \<open>
  C8 at a failing input. The yarn lock entry of key \<^verbatim>\<open>constructor@^1.0.0\<close> has the
  package name \<^verbatim>\<open>constructor\<close>, the part of the key before its last \<^verbatim>\<open>@\<close>; the walk
  throws a \<^verbatim>\<open>TypeError\<close> when it adds the version of the entry, for the same reason, and
  so does the import command in a directory whose \<^verbatim>\<open>yarn.lock\<close> holds this entry.
\<close>

theorem yarn_walk_inherited_name:
  "substring ''constructor@^1.0.0'' 0 (lastIndexOf ''constructor@^1.0.0'' CHR ''@'')
     = ''constructor''
   \<and> getAllVersionsFromYarnLockFile
       [(''constructor@^1.0.0'',
         \<lparr>yarn_version = ''1.0.0'', resolved = [], integrity = [], yarn_dependencies = None\<rparr>)]
       Map.empty
     = Inl (TypeError ''versionsByPackageNames[packageName].add is not a function'')
   \<and> handler_preferredVersions
       (sample_env [(''/repo/yarn.lock'', ''constructor@^1.0.0: version 1.0.0'')] []) ''/repo''
     = Inl (TypeError ''versionsByPackageNames[packageName].add is not a function'')"
  by (simp add: handler_preferredVersions_def readYarnLockFile_def lastIndexOf_def
      substring_def add_version_def Object_prototype_def)

section \<open>What the walks record when no package name is an inherited one\<close>

text \<open>
  When no package name of the lock file is a member of \<^verbatim>\<open>Object.prototype\<close>, the npm walk
  records every version of every node under the name of the node (\<open>npm_walk_recorded\<close>),
  the yarn walk records the version of every entry under the part of its key before the
  last \<^verbatim>\<open>@\<close> (\<open>yarn_package_name\<close>, \<open>yarn_walk_recorded\<close>), and the preferred versions
  tag exactly the pairs of name and version that were recorded
  (\<open>preferred_versions_observed\<close>).
\<close>

lemma with_observed_Nil [simp]: "with_observed [] versions = versions"
  by (simp add: with_observed_def observed_versions_def)

lemma observed_versions_append:
  "observed_versions (ps @ qs) name = observed_versions ps name \<union> observed_versions qs name"
  by (simp add: observed_versions_def)

lemma with_observed_append:
  "with_observed (ps @ qs) versions = with_observed qs (with_observed ps versions)"
  by (rule ext) (auto simp: with_observed_def observed_versions_append split: option.splits)

lemma with_observed_Cons:
  "with_observed ((packageName, v) # observed) versions
     = with_observed observed
         (versions(packageName \<mapsto>
            insert v (case versions packageName of None \<Rightarrow> {} | Some recorded \<Rightarrow> recorded)))"
proof -
  have "with_observed [(packageName, v)] versions
      = versions(packageName \<mapsto>
          insert v (case versions packageName of None \<Rightarrow> {} | Some recorded \<Rightarrow> recorded))"
    by (rule ext) (simp add: with_observed_def observed_versions_def)
  then show ?thesis
    using with_observed_append [of "[(packageName, v)]" observed versions] by simp
qed

lemma add_version_recorded:
  "packageName \<notin> set Object_prototype \<Longrightarrow>
   add_version packageName v versions
     = Inr (versions(packageName \<mapsto>
              insert v (case versions packageName of None \<Rightarrow> {} | Some recorded \<Rightarrow> recorded)))"
  by (simp add: add_version_def split: option.splits)

lemma record_versions_recorded:
  "\<forall>pair \<in> set deps. fst pair \<notin> set Object_prototype \<Longrightarrow>
   record_versions deps versions
     = Inr (with_observed (map (\<lambda>(packageName, pkg). (packageName, version pkg)) deps) versions)"
proof (induction deps arbitrary: versions)
  case Nil
  then show ?case by simp
next
  case (Cons dep deps)
  obtain packageName pkg where dep: "dep = (packageName, pkg)"
    by (cases dep)
  with Cons.prems have "packageName \<notin> set Object_prototype"
    by simp
  with Cons dep show ?case
    by (simp add: add_version_recorded with_observed_Cons)
qed

lemma npm_walk_recorded:
  "(\<forall>pair \<in> set (nodes tree). fst pair \<notin> set Object_prototype) \<longrightarrow>
     getAllVersionsByPackageNames tree versions = Inr (with_observed (nodes tree) versions)"
  "(\<forall>pair \<in> set (nodes_below deps). fst pair \<notin> set Object_prototype) \<longrightarrow>
     walk_dependencies deps versions = Inr (with_observed (nodes_below deps) versions)"
proof (induction tree versions and deps versions
    rule: getAllVersionsByPackageNames_walk_dependencies.induct)
  case (1 v versionsByPackageNames)
  then show ?case by simp
next
  case (2 v deps versionsByPackageNames)
  show ?case
  proof
    assume names: "\<forall>pair \<in> set (nodes (LockedPackage v (Some deps))).
      fst pair \<notin> set Object_prototype"
    then have "\<forall>pair \<in> set deps. fst pair \<notin> set Object_prototype"
      by force
    then have recorded: "record_versions deps versionsByPackageNames
        = Inr (with_observed (map (\<lambda>(packageName, pkg). (packageName, version pkg)) deps)
            versionsByPackageNames)"
      by (rule record_versions_recorded)
    from names have "\<forall>pair \<in> set (nodes_below deps). fst pair \<notin> set Object_prototype"
      by simp
    with 2 [OF recorded] recorded
    show "getAllVersionsByPackageNames (LockedPackage v (Some deps)) versionsByPackageNames
        = Inr (with_observed (nodes (LockedPackage v (Some deps))) versionsByPackageNames)"
      by (simp add: with_observed_append)
  qed
next
  case (3 versionsByPackageNames)
  then show ?case by simp
next
  case (4 packageName pkg rest versionsByPackageNames)
  show ?case
  proof
    assume names: "\<forall>pair \<in> set (nodes_below ((packageName, pkg) # rest)).
      fst pair \<notin> set Object_prototype"
    then have walked: "getAllVersionsByPackageNames pkg versionsByPackageNames
        = Inr (with_observed (nodes pkg) versionsByPackageNames)"
      using 4(1) by simp
    from names have "\<forall>pair \<in> set (nodes_below rest). fst pair \<notin> set Object_prototype"
      by simp
    with 4(2) [OF walked] walked
    show "walk_dependencies ((packageName, pkg) # rest) versionsByPackageNames
        = Inr (with_observed (nodes_below ((packageName, pkg) # rest)) versionsByPackageNames)"
      by (simp add: with_observed_append)
  qed
qed

lemma last_index_absent: "c \<notin> set s \<Longrightarrow> last_index c s i found = found"
  by (induction s arbitrary: i) auto

lemma last_index_last:
  "c \<notin> set rangeSpec \<Longrightarrow> last_index c (name @ c # rangeSpec) i found = int (i + length name)"
  by (induction name arbitrary: i found) (auto simp: last_index_absent)

lemma yarn_package_name:
  "CHR ''@'' \<notin> set rangeSpec \<Longrightarrow>
   substring (name @ ''@'' @ rangeSpec) 0 (lastIndexOf (name @ ''@'' @ rangeSpec) CHR ''@'') = name"
  by (simp add: lastIndexOf_def last_index_last substring_def Let_def)

lemma yarn_walk_recorded:
  "\<forall>pair \<in> set (yarn_entries yarnPackageLock). fst pair \<notin> set Object_prototype \<Longrightarrow>
   getAllVersionsFromYarnLockFile yarnPackageLock versions
     = Inr (with_observed (yarn_entries yarnPackageLock) versions)"
proof (induction yarnPackageLock arbitrary: versions)
  case Nil
  then show ?case by (simp add: yarn_entries_def)
next
  case (Cons keyed yarnPackageLock)
  obtain key entry where keyed: "keyed = (key, entry)"
    by (cases keyed)
  let ?name = "substring key 0 (lastIndexOf key CHR ''@'')"
  from Cons.prems keyed have "?name \<notin> set Object_prototype"
    by (simp add: yarn_entries_def)
  moreover from Cons.prems
  have "\<forall>pair \<in> set (yarn_entries yarnPackageLock). fst pair \<notin> set Object_prototype"
    by (simp add: yarn_entries_def)
  ultimately show ?case
    using Cons.IH keyed
    by (simp add: add_version_recorded yarn_entries_def with_observed_Cons)
qed

lemma preferred_versions_observed:
  "packageName \<noteq> ''__proto__'' \<Longrightarrow> v \<noteq> ''__proto__'' \<Longrightarrow>
   (\<exists>tags. getPreferredVersions (with_observed observed Map.empty) packageName = Some tags
      \<and> tags v = Some ''version'')
   \<longleftrightarrow> (packageName, v) \<in> set observed"
  by (force simp: getPreferredVersions_def with_observed_def observed_versions_def)

end
